theory Spec2Isabelle
  imports Complex_Main "HOL-Library.AList"
begin

section \<open>Python values used by the storefront\<close>

text \<open>
  Text is a \<^typ>\<open>string\<close>. The string operations of Python that the handlers call
  (\<open>strip\<close>, \<open>lower\<close>, \<open>len\<close>, \<open>int\<close>, the character classes of the password
  check) are written out for ASCII text, where they agree with Python. The Russian
  literals of the source (order status labels) are compared for equality only and are
  given by their UTF-8 bytes. A price is a Python float; it is modelled as a
  \<^typ>\<open>real\<close>, so rounding, NaN and infinities are outside the model. Integers are
  unbounded, as in Python; numerals of more than 4300 digits, which recent versions of
  Python refuse to convert, are outside the model as well.
\<close>

datatype py_exc = ValueError | TypeError | AttributeError | OverflowError | IntegrityError

definition py_isspace :: "char \<Rightarrow> bool" where
  "py_isspace c = ((of_char c :: nat) \<in> {9, 10, 11, 12, 13, 28, 29, 30, 31, 32})"

definition py_strip :: "string \<Rightarrow> string" where
  "py_strip s = rev (dropWhile py_isspace (rev (dropWhile py_isspace s)))"

definition py_lower_char :: "char \<Rightarrow> char" where
  "py_lower_char c =
     (if 65 \<le> (of_char c :: nat) \<and> (of_char c :: nat) \<le> 90
      then char_of ((of_char c :: nat) + 32) else c)"

definition py_lower :: "string \<Rightarrow> string" where
  "py_lower s = map py_lower_char s"

definition is_digit :: "char \<Rightarrow> bool" where
  "is_digit c = (48 \<le> (of_char c :: nat) \<and> (of_char c :: nat) \<le> 57)"

definition digit_val :: "char \<Rightarrow> nat" where
  "digit_val c = (of_char c :: nat) - 48"

definition digit_char :: "nat \<Rightarrow> char" where
  "digit_char d = char_of (48 + d)"

text \<open>
  \<open>int(s)\<close> on a string, base 10: surrounding whitespace is dropped, one sign is
  allowed, then decimal digits follow, where single underscores may separate digits.
  \<open>None\<close> stands for the \<open>ValueError\<close> Python raises on anything else.
\<close>

fun parse_digits :: "string \<Rightarrow> nat \<Rightarrow> nat option" where
  "parse_digits [] acc = Some acc"
| "parse_digits (c # cs) acc =
     (if is_digit c then parse_digits cs (10 * acc + digit_val c)
      else if c = CHR ''_'' then
        (case cs of
           [] \<Rightarrow> None
         | d # ds \<Rightarrow> if is_digit d then parse_digits ds (10 * acc + digit_val d) else None)
      else None)"

definition parse_decimal :: "string \<Rightarrow> nat option" where
  "parse_decimal s =
     (case s of
        [] \<Rightarrow> None
      | c # cs \<Rightarrow> if is_digit c then parse_digits cs (digit_val c) else None)"

definition py_int_str :: "string \<Rightarrow> int option" where
  "py_int_str s =
     (case py_strip s of
        [] \<Rightarrow> None
      | c # cs \<Rightarrow>
          if c = CHR ''-'' then map_option (\<lambda>n. - int n) (parse_decimal cs)
          else if c = CHR ''+'' then map_option int (parse_decimal cs)
          else map_option int (parse_decimal (c # cs)))"

text \<open>\<open>str(i)\<close> on an integer: the decimal digits, with a minus sign when negative.\<close>

function digits_of :: "nat \<Rightarrow> string" where
  "digits_of n =
     (if n < 10 then [digit_char n] else digits_of (n div 10) @ [digit_char (n mod 10)])"
  by pat_completeness auto
termination
  by (relation "measure (\<lambda>n. n)") auto

declare digits_of.simps [simp del]

definition str_int :: "int \<Rightarrow> string" where
  "str_int i = (if i < 0 then CHR ''-'' # digits_of (nat (- i)) else digits_of (nat i))"

section \<open>The session cart (\<open>app/utils.py\<close>)\<close>

text \<open>
  The cart is a Python dict from strings to integers. A dict keeps its keys in
  insertion order and holds each key once: it is an association list, read with
  \<^const>\<open>map_of\<close>, assigned with \<^const>\<open>AList.update\<close> (in place for a key already
  there, at the end otherwise) and popped with \<^const>\<open>AList.delete\<close>.
\<close>

type_synonym cart = "(string \<times> int) list"

text \<open>
  A token of \<open>URLSafeTimedSerializer\<close> (library \<open>itsdangerous\<close>): either the payload
  and the time of signing (in seconds) under the application's key, or anything else.
\<close>

datatype token = Token string int | BadToken

text \<open>The texts handed to \<open>flash\<close>, one constructor for each.\<close>

datatype message =
    MsgAddedToCart
  | MsgCartUpdated
  | MsgCartCleared
  | MsgFillAllFields
  | MsgCartEmpty
  | MsgStripeFailed
  | MsgStatusUpdated int string
  | MsgBadStatus
  | MsgNameRequired
  | MsgProductNameRequired
  | MsgCategoryExists
  | MsgEmailPasswordRequired
  | MsgPasswordTooSimple
  | MsgPasswordWeak
  | MsgUserExists
  | MsgRegistered token
  | MsgBadLogin
  | MsgLoggedOut
  | MsgPleaseLogIn
  | MsgLinkExpired
  | MsgLinkInvalid
  | MsgEmailConfirmed
  | MsgAlreadyConfirmed
  | MsgConfirmLink token
  | MsgResetLink token
  | MsgResetSent
  | MsgUserNotFound
  | MsgPasswordsDiffer
  | MsgPasswordChanged

record session =
  sess_cart :: "cart option"
  sess_flashes :: "message list"
  sess_user_id :: "int option"

definition get_cart :: "session \<Rightarrow> cart" where
  "get_cart s = (case sess_cart s of None \<Rightarrow> [] | Some c \<Rightarrow> c)"

definition save_cart :: "cart \<Rightarrow> session \<Rightarrow> session" where
  "save_cart c s = s\<lparr>sess_cart := Some c\<rparr>"

definition flash :: "message \<Rightarrow> session \<Rightarrow> session" where
  "flash m s = s\<lparr>sess_flashes := sess_flashes s @ [m]\<rparr>"

definition dict_get :: "cart \<Rightarrow> string \<Rightarrow> int \<Rightarrow> int" where
  "dict_get c k d = (case map_of c k of None \<Rightarrow> d | Some v \<Rightarrow> v)"

section \<open>The database (\<open>app/models.py\<close>)\<close>

text \<open>
  Each table is the list of its rows; a row is a record of the columns the handlers
  read or write (\<open>created_at\<close> is left out). A password hash is kept as the password it
  was made from: \<open>generate_password_hash\<close> is taken as an ideal hash.
\<close>

datatype pwhash = NoPassword | HashOf string

record user =
  u_id :: int
  u_email :: string
  u_password_hash :: pwhash
  u_is_admin :: bool
  u_full_name :: string
  u_default_address :: string
  u_avatar :: "string option"
  u_email_confirmed :: bool

record category =
  c_id :: int
  c_name :: string

record product =
  p_id :: int
  p_name :: string
  p_price :: real
  p_description :: string
  p_image :: string
  p_category_id :: "int option"

record order =
  o_id :: int
  o_user_id :: "int option"
  o_customer_name :: string
  o_email :: string
  o_address :: string
  o_status :: string
  o_user_order_no :: "int option"
  o_stripe_session_id :: "string option"

record order_item =
  oi_id :: int
  oi_order_id :: int
  oi_product_id :: int
  oi_quantity :: int
  oi_price_snapshot :: real

record database =
  users :: "user list"
  categories :: "category list"
  products :: "product list"
  orders :: "order list"
  order_items :: "order_item list"

record state =
  db :: database
  session :: session

text \<open>An integer primary key gets the successor of the largest key in the table.\<close>

definition next_id :: "int list \<Rightarrow> int" where
  "next_id ids = (if ids = [] then 1 else Max (set ids) + 1)"

text \<open>\<open>Model.query.get(i)\<close>: the row with that primary key, if any.\<close>

definition get_product :: "database \<Rightarrow> int \<Rightarrow> product option" where
  "get_product d i = find (\<lambda>p. p_id p = i) (products d)"

definition get_order :: "database \<Rightarrow> int \<Rightarrow> order option" where
  "get_order d i = find (\<lambda>x. o_id x = i) (orders d)"

definition get_category :: "database \<Rightarrow> int \<Rightarrow> category option" where
  "get_category d i = find (\<lambda>x. c_id x = i) (categories d)"

definition get_user :: "database \<Rightarrow> int \<Rightarrow> user option" where
  "get_user d i = find (\<lambda>x. u_id x = i) (users d)"

text \<open>\<open>User.query.filter_by(email=e).first()\<close>.\<close>

definition user_by_email :: "database \<Rightarrow> string \<Rightarrow> user option" where
  "user_by_email d e = find (\<lambda>x. u_email x = e) (users d)"

text \<open>
  \<open>current_user\<close>: Flask-Login loads the user whose id the session holds
  (\<open>load_user\<close> in \<open>app/__init__.py\<close>); without one the user is anonymous.
\<close>

definition current_user :: "state \<Rightarrow> user option" where
  "current_user st =
     (case sess_user_id (session st) of None \<Rightarrow> None | Some i \<Rightarrow> get_user (db st) i)"

section \<open>Responses\<close>

datatype response =
    Render string
  | Redirect string
  | RedirectCode string nat
  | JsonCartAdd int int nat
  | JsonCartUpdate nat
  | Abort nat
  | Plain nat

text \<open>
  A handler returns its response and the state it leaves, or \<open>Inl\<close> the exception it
  lets escape (the request ends with status 500; what then becomes of the session is not
  modelled).
\<close>

type_synonym result = "py_exc + (response \<times> state)"

section \<open>\<open>cart_items\<close>\<close>

record row =
  row_product :: product
  row_qty :: int
  row_line_total :: real

text \<open>The \<open>for p in products\<close> loop, with its two accumulators.\<close>

fun cart_items_loop :: "cart \<Rightarrow> product list \<Rightarrow> row list \<Rightarrow> real \<Rightarrow> row list \<times> real" where
  "cart_items_loop c [] res tot = (res, tot)"
| "cart_items_loop c (p # ps) res tot =
     (let qty = dict_get c (str_int (p_id p)) 0;
          line_total = p_price p * real_of_int qty
      in cart_items_loop c ps
           (res @ [\<lparr>row_product = p, row_qty = qty, row_line_total = line_total\<rparr>])
           (tot + line_total))"

definition cart_items :: "product list \<Rightarrow> cart \<Rightarrow> py_exc + (row list \<times> real)" where
  "cart_items table c =
     (case those (map (\<lambda>kv. py_int_str (fst kv)) c) of
        None \<Rightarrow> Inl ValueError
      | Some ids \<Rightarrow>
          Inr (cart_items_loop c
                 (if ids \<noteq> [] then filter (\<lambda>p. p_id p \<in> set ids) table else []) [] 0))"

section \<open>The shop (\<open>app/blueprints/shop/routes.py\<close>)\<close>

text \<open>
  A submitted form is the list of its fields; \<open>request.form.get(k)\<close> reads the first
  value of \<open>k\<close>, and \<open>request.form.items()\<close> yields each key once with that value.
\<close>

type_synonym form = "(string \<times> string) list"

fun form_items :: "form \<Rightarrow> (string \<times> string) list" where
  "form_items [] = []"
| "form_items (kv # f) = kv # form_items (filter (\<lambda>x. fst x \<noteq> fst kv) f)"

text \<open>
  \<open>cart_add(pid)\<close>. \<open>xhr\<close> says whether the request carries the header
  \<open>X-Requested-With: XMLHttpRequest\<close>; \<open>referrer\<close> is \<open>request.referrer\<close>.
\<close>

definition cart_add :: "int \<Rightarrow> form \<Rightarrow> bool \<Rightarrow> string option \<Rightarrow> state \<Rightarrow> result" where
  "cart_add pid f xhr referrer st =
     (case get_product (db st) pid of
        None \<Rightarrow> Inr (Abort 404, st)
      | Some _ \<Rightarrow>
          (case (case map_of f ''qty'' of None \<Rightarrow> Some 1 | Some v \<Rightarrow> py_int_str v) of
             None \<Rightarrow> Inl ValueError
           | Some qty \<Rightarrow>
               let c = get_cart (session st);
                   c' = AList.update (str_int pid) (dict_get c (str_int pid) 0 + max 1 qty) c;
                   s' = save_cart c' (session st)
               in if xhr
                  then Inr (JsonCartAdd pid (dict_get c' (str_int pid) 0) (length c'),
                            st\<lparr>session := s'\<rparr>)
                  else Inr (Redirect (case referrer of None \<Rightarrow> ''shop.index''
                                        | Some r \<Rightarrow> if r = [] then ''shop.index'' else r),
                            st\<lparr>session := flash MsgAddedToCart s'\<rparr>)))"

text \<open>
  The body of a JSON request, as \<open>json.loads\<close> returns it (an object is a dict, so
  each of its keys occurs once). \<open>int(x)\<close> on such a value: a number is truncated towards zero, a string is parsed, \<open>None\<close> and containers
  raise \<open>TypeError\<close>, NaN raises \<open>ValueError\<close> and an infinity \<open>OverflowError\<close>.
\<close>

datatype json =
    JNull
  | JBool bool
  | JInt int
  | JFloat real
  | JNaN
  | JInfinity
  | JNegInfinity
  | JStr string
  | JArr "json list"
  | JObj "(string \<times> json) list"

fun py_int :: "json \<Rightarrow> py_exc + int" where
  "py_int JNull = Inl TypeError"
| "py_int (JBool b) = Inr (if b then 1 else 0)"
| "py_int (JInt i) = Inr i"
| "py_int (JFloat r) = Inr (if 0 \<le> r then \<lfloor>r\<rfloor> else \<lceil>r\<rceil>)"
| "py_int JNaN = Inl ValueError"
| "py_int JInfinity = Inl OverflowError"
| "py_int JNegInfinity = Inl OverflowError"
| "py_int (JStr s) = (case py_int_str s of None \<Rightarrow> Inl ValueError | Some i \<Rightarrow> Inr i)"
| "py_int (JArr xs) = Inl TypeError"
| "py_int (JObj kvs) = Inl TypeError"

fun truthy :: "json \<Rightarrow> bool" where
  "truthy JNull = False"
| "truthy (JBool b) = b"
| "truthy (JInt i) = (i \<noteq> 0)"
| "truthy (JFloat r) = (r \<noteq> 0)"
| "truthy JNaN = True"
| "truthy JInfinity = True"
| "truthy JNegInfinity = True"
| "truthy (JStr s) = (s \<noteq> [])"
| "truthy (JArr xs) = (xs \<noteq> [])"
| "truthy (JObj kvs) = (kvs \<noteq> [])"

text \<open>\<open>x.get(k, d)\<close>: only a dict has the method.\<close>

fun json_get :: "json \<Rightarrow> string \<Rightarrow> json \<Rightarrow> py_exc + json" where
  "json_get (JObj kvs) k d = Inr (case map_of kvs k of None \<Rightarrow> d | Some v \<Rightarrow> v)"
| "json_get _ k d = Inl AttributeError"

text \<open>\<open>for it in x\<close>: the elements of a list, the keys of a dict, the characters of a string.\<close>

fun json_iter :: "json \<Rightarrow> py_exc + json list" where
  "json_iter (JArr xs) = Inr xs"
| "json_iter (JObj kvs) = Inr (map (\<lambda>kv. JStr (fst kv)) kvs)"
| "json_iter (JStr s) = Inr (map (\<lambda>c. JStr [c]) s)"
| "json_iter _ = Inl TypeError"

text \<open>
  One round of the loop of \<open>cart_update_api\<close>. \<open>TypeError\<close> and \<open>ValueError\<close> are
  caught and the item is skipped; any other exception escapes.
\<close>

definition caught :: "py_exc \<Rightarrow> bool" where
  "caught e = (e = TypeError \<or> e = ValueError)"

definition api_step :: "cart \<Rightarrow> json \<Rightarrow> py_exc + cart" where
  "api_step c it =
     (case json_get it ''pid'' JNull of
        Inl e \<Rightarrow> Inl e
      | Inr pv \<Rightarrow>
          (case py_int pv of
             Inl e \<Rightarrow> if caught e then Inr c else Inl e
           | Inr n \<Rightarrow>
               (case json_get it ''qty'' (JInt 0) of
                  Inl e \<Rightarrow> Inl e
                | Inr qv \<Rightarrow>
                    (case py_int qv of
                       Inl e \<Rightarrow> if caught e then Inr c else Inl e
                     | Inr q \<Rightarrow>
                         let pid = str_int n; qty = max 0 q
                         in if qty > 0 then Inr (AList.update pid qty c)
                            else Inr (AList.delete pid c)))))"

fun api_loop :: "cart \<Rightarrow> json list \<Rightarrow> py_exc + cart" where
  "api_loop c [] = Inr c"
| "api_loop c (it # its) =
     (case api_step c it of Inl e \<Rightarrow> Inl e | Inr c' \<Rightarrow> api_loop c' its)"

text \<open>
  The items of the request: \<open>body\<close> is \<open>request.get_json(silent=True)\<close>, \<open>None\<close>
  when the request holds no JSON; \<open>data = body or {}\<close>, then
  \<open>data.get("items", [])\<close> is iterated.
\<close>

definition request_items :: "json option \<Rightarrow> py_exc + json list" where
  "request_items body =
     (let data = (case body of None \<Rightarrow> JObj []
                  | Some j \<Rightarrow> if truthy j then j else JObj [])
      in case json_get data ''items'' (JArr []) of
           Inl e \<Rightarrow> Inl e
         | Inr incoming \<Rightarrow> json_iter incoming)"

text \<open>
  \<open>cart_update_api\<close>. The response's totals (rounded floats) are left out; its
  \<open>cart_size\<close> is kept.
\<close>

definition cart_update_api :: "json option \<Rightarrow> state \<Rightarrow> result" where
  "cart_update_api body st =
     (case request_items body of
        Inl e \<Rightarrow> Inl e
      | Inr its \<Rightarrow>
          (case api_loop (get_cart (session st)) its of
             Inl e \<Rightarrow> Inl e
           | Inr c \<Rightarrow>
               (case cart_items (products (db st)) c of
                  Inl e \<Rightarrow> Inl e
                | Inr _ \<Rightarrow>
                    Inr (JsonCartUpdate (length c),
                         st\<lparr>session := save_cart c (session st)\<rparr>))))"

text \<open>
  \<open>cart_update\<close>, the HTML form. \<open>key.split("_", 1)[1]\<close> is what follows the first
  underscore of the key.
\<close>

definition startswith :: "string \<Rightarrow> string \<Rightarrow> bool" where
  "startswith s p = (take (length p) s = p)"

definition after_underscore :: "string \<Rightarrow> string" where
  "after_underscore key = tl (dropWhile (\<lambda>c. c \<noteq> CHR ''_'') key)"

fun cart_update_loop :: "(string \<times> string) list \<Rightarrow> cart \<Rightarrow> cart" where
  "cart_update_loop [] c = c"
| "cart_update_loop (kv # kvs) c =
     (if startswith (fst kv) ''qty_'' then
        (let pid = after_underscore (fst kv);
             qty = (case py_int_str (snd kv) of None \<Rightarrow> 0 | Some v \<Rightarrow> max 0 v)
         in cart_update_loop kvs (if qty > 0 then AList.update pid qty c else c))
      else cart_update_loop kvs c)"

definition cart_update :: "form \<Rightarrow> state \<Rightarrow> result" where
  "cart_update f st =
     Inr (Redirect ''shop.cart_view'',
          st\<lparr>session := flash MsgCartUpdated
                 (save_cart (cart_update_loop (form_items f) []) (session st))\<rparr>)"

definition cart_clear :: "state \<Rightarrow> result" where
  "cart_clear st =
     Inr (Redirect ''shop.cart_view'',
          st\<lparr>session := flash MsgCartCleared (save_cart [] (session st))\<rparr>)"

subsection \<open>Order status labels\<close>

text \<open>
  The labels the handlers store in \<open>Order.status\<close>, as the UTF-8 bytes of the Russian
  literals: \<open>status_pending\<close> "payment is being processed", \<open>status_awaiting\<close>
  "awaiting payment" as \<open>checkout\<close> writes it, \<open>status_awaiting_admin\<close> "awaiting
  payment" as the admin panel writes it (another word for payment), \<open>status_paid\<close>
  "paid", \<open>status_canceled\<close> "payment cancelled".
\<close>

definition status_pending :: string where
  "status_pending =
     [CHR 0xD0, CHR 0x9E, CHR 0xD0, CHR 0xB1, CHR 0xD1, CHR 0x80, CHR 0xD0, CHR 0xB0,
      CHR 0xD0, CHR 0xB1, CHR 0xD0, CHR 0xBE, CHR 0xD1, CHR 0x82, CHR 0xD0, CHR 0xBA,
      CHR 0xD0, CHR 0xB0, CHR 0x20, CHR 0xD0, CHR 0xBF, CHR 0xD0, CHR 0xBB, CHR 0xD0,
      CHR 0xB0, CHR 0xD1, CHR 0x82, CHR 0xD0, CHR 0xB5, CHR 0xD0, CHR 0xB6, CHR 0xD0,
      CHR 0xB0]"

definition status_awaiting :: string where
  "status_awaiting =
     [CHR 0xD0, CHR 0x9E, CHR 0xD0, CHR 0xB6, CHR 0xD0, CHR 0xB8, CHR 0xD0, CHR 0xB4,
      CHR 0xD0, CHR 0xB0, CHR 0xD0, CHR 0xBD, CHR 0xD0, CHR 0xB8, CHR 0xD0, CHR 0xB5,
      CHR 0x20, CHR 0xD0, CHR 0xBE, CHR 0xD0, CHR 0xBF, CHR 0xD0, CHR 0xBB, CHR 0xD0,
      CHR 0xB0, CHR 0xD1, CHR 0x82, CHR 0xD1, CHR 0x8B]"

definition status_awaiting_admin :: string where
  "status_awaiting_admin =
     [CHR 0xD0, CHR 0x9E, CHR 0xD0, CHR 0xB6, CHR 0xD0, CHR 0xB8, CHR 0xD0, CHR 0xB4,
      CHR 0xD0, CHR 0xB0, CHR 0xD0, CHR 0xBD, CHR 0xD0, CHR 0xB8, CHR 0xD0, CHR 0xB5,
      CHR 0x20, CHR 0xD0, CHR 0xBF, CHR 0xD0, CHR 0xBB, CHR 0xD0, CHR 0xB0, CHR 0xD1,
      CHR 0x82, CHR 0xD0, CHR 0xB5, CHR 0xD0, CHR 0xB6, CHR 0xD0, CHR 0xB0]"

definition status_paid :: string where
  "status_paid =
     [CHR 0xD0, CHR 0x9E, CHR 0xD0, CHR 0xBF, CHR 0xD0, CHR 0xBB, CHR 0xD0, CHR 0xB0,
      CHR 0xD1, CHR 0x87, CHR 0xD0, CHR 0xB5, CHR 0xD0, CHR 0xBD, CHR 0xD0, CHR 0xBE]"

definition status_canceled :: string where
  "status_canceled =
     [CHR 0xD0, CHR 0x9F, CHR 0xD0, CHR 0xBB, CHR 0xD0, CHR 0xB0, CHR 0xD1, CHR 0x82,
      CHR 0xD1, CHR 0x91, CHR 0xD0, CHR 0xB6, CHR 0x20, CHR 0xD0, CHR 0xBE, CHR 0xD1,
      CHR 0x82, CHR 0xD0, CHR 0xBC, CHR 0xD0, CHR 0xB5, CHR 0xD0, CHR 0xBD, CHR 0xD1,
      CHR 0x91, CHR 0xD0, CHR 0xBD]"

subsection \<open>\<open>checkout\<close>\<close>

text \<open>
  The Stripe keys are read from the environment in \<open>app/extensions.py\<close>; a key that is
  unset or empty counts as not configured.
\<close>

record config =
  STRIPE_SECRET_KEY :: "string option"
  STRIPE_PUBLISHABLE_KEY :: "string option"

definition configured :: "string option \<Rightarrow> bool" where
  "configured k = (case k of None \<Rightarrow> False | Some v \<Rightarrow> v \<noteq> [])"

text \<open>\<open>(request.form.get(k) or "")\<close>.\<close>

definition form_get :: "form \<Rightarrow> string \<Rightarrow> string" where
  "form_get f k = (case map_of f k of None \<Rightarrow> [] | Some v \<Rightarrow> v)"

text \<open>SQL \<open>MAX\<close> over a column: NULLs are skipped, and no value gives NULL.\<close>

fun sql_max :: "int option list \<Rightarrow> int option" where
  "sql_max [] = None"
| "sql_max (None # xs) = sql_max xs"
| "sql_max (Some v # xs) = (case sql_max xs of None \<Rightarrow> Some v | Some m \<Rightarrow> Some (max v m))"

text \<open>\<open>x or 0\<close> on the result of the query.\<close>

definition or_zero :: "int option \<Rightarrow> int" where
  "or_zero x = (case x of None \<Rightarrow> 0 | Some v \<Rightarrow> v)"

text \<open>
  The orders \<open>checkout\<close> counts for the customer: those of the logged-in user, or for
  a guest those without a user and with the same email.
\<close>

definition customer_orders :: "int option \<Rightarrow> string \<Rightarrow> order list \<Rightarrow> order list" where
  "customer_orders uid email os =
     (case uid of
        Some i \<Rightarrow> filter (\<lambda>x. o_user_id x = Some i) os
      | None \<Rightarrow> filter (\<lambda>x. o_user_id x = None \<and> o_email x = email) os)"

definition last_no :: "int option \<Rightarrow> string \<Rightarrow> order list \<Rightarrow> int" where
  "last_no uid email os = or_zero (sql_max (map o_user_order_no (customer_orders uid email os)))"

text \<open>The \<open>for row in items\<close> loop: one \<open>OrderItem\<close> for each row.\<close>

fun add_order_items :: "int \<Rightarrow> row list \<Rightarrow> order_item list \<Rightarrow> order_item list" where
  "add_order_items oid [] tbl = tbl"
| "add_order_items oid (r # rs) tbl =
     add_order_items oid rs
       (tbl @ [\<lparr>oi_id = next_id (map oi_id tbl), oi_order_id = oid,
                oi_product_id = p_id (row_product r), oi_quantity = row_qty r,
                oi_price_snapshot = p_price (row_product r)\<rparr>])"

text \<open>Writing to an object loaded from the table changes that row: the first with the key.\<close>

fun update_row :: "('a \<Rightarrow> bool) \<Rightarrow> ('a \<Rightarrow> 'a) \<Rightarrow> 'a list \<Rightarrow> 'a list" where
  "update_row P f [] = []"
| "update_row P f (x # xs) = (if P x then f x # xs else x # update_row P f xs)"

definition update_order :: "int \<Rightarrow> (order \<Rightarrow> order) \<Rightarrow> database \<Rightarrow> database" where
  "update_order i f d = d\<lparr>orders := update_row (\<lambda>x. o_id x = i) f (orders d)\<rparr>"

definition checkout_get :: "state \<Rightarrow> result" where
  "checkout_get st =
     (case cart_items (products (db st)) (get_cart (session st)) of
        Inl e \<Rightarrow> Inl e
      | Inr _ \<Rightarrow> Inr (Render ''checkout.html'', st))"

text \<open>
  \<open>checkout\<close> on POST. \<open>stripe\<close> is the outcome of the \<open>try\<close> block that calls
  \<open>stripe.checkout.Session.create\<close>: the id and url of the payment session, or
  \<open>None\<close> when the block raises.
\<close>

definition checkout_post :: "config \<Rightarrow> (string \<times> string) option \<Rightarrow> form \<Rightarrow> state \<Rightarrow> result" where
  "checkout_post cfg stripe f st =
     (case cart_items (products (db st)) (get_cart (session st)) of
        Inl e \<Rightarrow> Inl e
      | Inr (items, tot) \<Rightarrow>
          let u = current_user st;
              name = py_strip (form_get f ''name'');
              email = py_lower (py_strip (form_get f ''email''));
              address = (if py_strip (form_get f ''address'') \<noteq> []
                         then py_strip (form_get f ''address'')
                         else (case u of None \<Rightarrow> [] | Some usr \<Rightarrow> u_default_address usr))
          in if \<not> (name \<noteq> [] \<and> email \<noteq> [] \<and> address \<noteq> []) then
               Inr (Render ''checkout.html'',
                    st\<lparr>session := flash MsgFillAllFields (session st)\<rparr>)
             else if tot \<le> 0 then
               Inr (Redirect ''shop.index'', st\<lparr>session := flash MsgCartEmpty (session st)\<rparr>)
             else
               let uid = map_option u_id u;
                   oid = next_id (map o_id (orders (db st)));
                   order = \<lparr>o_id = oid, o_user_id = uid, o_customer_name = name,
                            o_email = email, o_address = address, o_status = status_pending,
                            o_user_order_no = Some (last_no uid email (orders (db st)) + 1),
                            o_stripe_session_id = None\<rparr>;
                   d1 = (db st)\<lparr>orders := orders (db st) @ [order],
                                order_items := add_order_items oid items (order_items (db st))\<rparr>;
                   pay = (if configured (STRIPE_SECRET_KEY cfg) \<and>
                             configured (STRIPE_PUBLISHABLE_KEY cfg)
                          then Some stripe else None)
               in (case pay of
                    Some (Some (sid, url)) \<Rightarrow>
                      Inr (RedirectCode url 303,
                           \<lparr>db = update_order oid (\<lambda>x. x\<lparr>o_stripe_session_id := Some sid\<rparr>) d1,
                            session = save_cart [] (session st)\<rparr>)
                  | Some None \<Rightarrow>
                      Inr (Render ''thankyou.html'',
                           \<lparr>db = update_order oid (\<lambda>x. x\<lparr>o_status := status_awaiting\<rparr>) d1,
                            session = save_cart [] (flash MsgStripeFailed (session st))\<rparr>)
                  | None \<Rightarrow>
                      Inr (Render ''thankyou.html'',
                           \<lparr>db = update_order oid (\<lambda>x. x\<lparr>o_status := status_awaiting\<rparr>) d1,
                            session = save_cart [] (session st)\<rparr>)))"

subsection \<open>\<open>payment_success\<close> and \<open>payment_cancel\<close>\<close>

text \<open>
  \<open>request.args.get("order_id", type=int)\<close>: \<open>None\<close> when the parameter is missing
  or \<open>int\<close> raises on it. \<open>get_or_404\<close> then finds no row for \<open>None\<close>.
\<close>

definition arg_int :: "string option \<Rightarrow> int option" where
  "arg_int a = (case a of None \<Rightarrow> None | Some v \<Rightarrow> py_int_str v)"


definition payment_cancel :: "string option \<Rightarrow> state \<Rightarrow> result" where
  "payment_cancel order_id st =
     (case arg_int order_id of
        None \<Rightarrow> Inr (Abort 404, st)
      | Some i \<Rightarrow>
          (case get_order (db st) i of
             None \<Rightarrow> Inr (Abort 404, st)
           | Some _ \<Rightarrow>
               Inr (Redirect ''shop.checkout'',
                    st\<lparr>db := update_order i (\<lambda>x. x\<lparr>o_status := status_canceled\<rparr>) (db st)\<rparr>)))"

section \<open>The admin panel (\<open>app/blueprints/admin/routes.py\<close>)\<close>

datatype http_method = GET | POST

text \<open>
  Two library functions are parameters of the model: Python's \<open>float\<close> on a string
  (\<open>None\<close> where it raises \<open>ValueError\<close>) and Werkzeug's \<open>secure_filename\<close>.
\<close>

record builtins =
  float_of :: "string \<Rightarrow> real option"
  secure_filename :: "string \<Rightarrow> string"

text \<open>
  \<open>admin_required\<close>: \<open>Some\<close> the response of \<open>abort(403)\<close>, or \<open>None\<close> when the check
  passes and the request goes on.
\<close>

definition admin_required :: "state \<Rightarrow> response option" where
  "admin_required st =
     (case current_user st of
        None \<Rightarrow> Some (Abort 403)
      | Some u \<Rightarrow> if \<not> u_is_admin u then Some (Abort 403) else None)"

definition check_admin :: "state \<Rightarrow> response option" where
  "check_admin st = admin_required st"

text \<open>\<open>@login_required\<close>: an anonymous visitor is sent to the login page.\<close>

definition login_required :: "state \<Rightarrow> result \<Rightarrow> result" where
  "login_required st view =
     (case current_user st of
        None \<Rightarrow> Inr (Redirect ''auth.login'', st\<lparr>session := flash MsgPleaseLogIn (session st)\<rparr>)
      | Some _ \<Rightarrow> view)"

definition allowed_file :: "string \<Rightarrow> bool" where
  "allowed_file filename =
     (CHR ''.'' \<in> set filename \<and>
      py_lower (rev (takeWhile (\<lambda>c. c \<noteq> CHR ''.'') (rev filename)))
        \<in> {''png'', ''jpg'', ''jpeg'', ''gif'', ''webp''})"

text \<open>The image path after an upload: \<open>upload\<close> is the file name of the part \<open>file\<close>.\<close>

definition uploaded_image :: "builtins \<Rightarrow> string option \<Rightarrow> string \<Rightarrow> string" where
  "uploaded_image lib upload image_url =
     (case upload of
        None \<Rightarrow> image_url
      | Some fn \<Rightarrow> if fn \<noteq> [] \<and> allowed_file fn
                   then ''uploads/'' @ secure_filename lib fn else image_url)"

text \<open>\<open>float(request.form.get("price", "0") or 0)\<close>.\<close>

definition form_price :: "builtins \<Rightarrow> form \<Rightarrow> real option" where
  "form_price lib f =
     (case map_of f ''price'' of
        None \<Rightarrow> float_of lib ''0''
      | Some v \<Rightarrow> if v = [] then Some 0 else float_of lib v)"

text \<open>\<open>request.form.get("category_id", type=int) or None\<close>.\<close>

definition form_category_id :: "form \<Rightarrow> int option" where
  "form_category_id f =
     (case arg_int (map_of f ''category_id'') of
        None \<Rightarrow> None
      | Some i \<Rightarrow> if i = 0 then None else Some i)"

definition admin_index :: "state \<Rightarrow> result" where
  "admin_index st = login_required st (Inr (Render ''admin/index.html'', st))"

definition admin_categories :: "state \<Rightarrow> result" where
  "admin_categories st = login_required st (Inr (Render ''admin/categories.html'', st))"

definition category_new :: "http_method \<Rightarrow> form \<Rightarrow> state \<Rightarrow> result" where
  "category_new m f st = login_required st
     (if m = POST then
        (let name = py_strip (form_get f ''name'')
         in if name = [] then
              Inr (Render ''admin/category_form.html'',
                   st\<lparr>session := flash MsgNameRequired (session st)\<rparr>)
            else if find (\<lambda>x. c_name x = name) (categories (db st)) \<noteq> None then
              Inr (Render ''admin/category_form.html'',
                   st\<lparr>session := flash MsgCategoryExists (session st)\<rparr>)
            else
              Inr (Redirect ''admin.categories'',
                   st\<lparr>db := (db st)\<lparr>categories := categories (db st) @
                          [\<lparr>c_id = next_id (map c_id (categories (db st))), c_name = name\<rparr>]\<rparr>\<rparr>))
      else Inr (Render ''admin/category_form.html'', st))"

text \<open>
  \<open>category_edit\<close>: the column \<open>name\<close> is unique, so the commit raises
  \<open>IntegrityError\<close> when another category has the new name.
\<close>

definition category_edit :: "int \<Rightarrow> http_method \<Rightarrow> form \<Rightarrow> state \<Rightarrow> result" where
  "category_edit cid m f st = login_required st
     (case get_category (db st) cid of
        None \<Rightarrow> Inr (Abort 404, st)
      | Some _ \<Rightarrow>
          if m = POST then
            (let name = py_strip (form_get f ''name'')
             in if name = [] then
                  Inr (Render ''admin/category_form.html'',
                       st\<lparr>session := flash MsgNameRequired (session st)\<rparr>)
                else if find (\<lambda>x. c_name x = name \<and> c_id x \<noteq> cid) (categories (db st)) \<noteq> None
                then Inl IntegrityError
                else
                  Inr (Redirect ''admin.categories'',
                       st\<lparr>db := (db st)\<lparr>categories :=
                              update_row (\<lambda>x. c_id x = cid) (\<lambda>x. x\<lparr>c_name := name\<rparr>)
                                (categories (db st))\<rparr>\<rparr>))
          else Inr (Render ''admin/category_form.html'', st))"

text \<open>
  \<open>category_delete\<close>: the ORM clears \<open>category_id\<close> of the category's products
  (relationship \<open>products\<close> without a delete cascade) and removes the row.
\<close>

definition category_delete :: "int \<Rightarrow> state \<Rightarrow> result" where
  "category_delete cid st = login_required st
     (case get_category (db st) cid of
        None \<Rightarrow> Inr (Abort 404, st)
      | Some _ \<Rightarrow>
          Inr (Redirect ''admin.categories'',
               st\<lparr>db := (db st)\<lparr>
                  categories := filter (\<lambda>x. c_id x \<noteq> cid) (categories (db st)),
                  products := map (\<lambda>p. if p_category_id p = Some cid
                                         then p\<lparr>p_category_id := None\<rparr> else p)
                                (products (db st))\<rparr>\<rparr>))"

definition admin_products :: "state \<Rightarrow> result" where
  "admin_products st = login_required st (Inr (Render ''admin/products.html'', st))"

definition product_new ::
  "builtins \<Rightarrow> http_method \<Rightarrow> form \<Rightarrow> string option \<Rightarrow> state \<Rightarrow> result" where
  "product_new lib m f upload st = login_required st
     (if m = POST then
        (case form_price lib f of
           None \<Rightarrow> Inl ValueError
         | Some price \<Rightarrow>
             let name = py_strip (form_get f ''name'');
                 description = py_strip (form_get f ''description'');
                 image_url = uploaded_image lib upload (py_strip (form_get f ''image''))
             in if name = [] then
                  Inr (Render ''admin/product_form.html'',
                       st\<lparr>session := flash MsgProductNameRequired (session st)\<rparr>)
                else
                  Inr (Redirect ''admin.products'',
                       st\<lparr>db := (db st)\<lparr>products := products (db st) @
                              [\<lparr>p_id = next_id (map p_id (products (db st))), p_name = name,
                                p_price = price, p_description = description,
                                p_image = image_url,
                                p_category_id = form_category_id f\<rparr>]\<rparr>\<rparr>))
      else Inr (Render ''admin/product_form.html'', st))"

definition product_edit ::
  "builtins \<Rightarrow> int \<Rightarrow> http_method \<Rightarrow> form \<Rightarrow> string option \<Rightarrow> state \<Rightarrow> result" where
  "product_edit lib pid m f upload st = login_required st
     (case get_product (db st) pid of
        None \<Rightarrow> Inr (Abort 404, st)
      | Some _ \<Rightarrow>
          if m = POST then
            (case form_price lib f of
               None \<Rightarrow> Inl ValueError
             | Some price \<Rightarrow>
                 let image_url = uploaded_image lib upload (py_strip (form_get f ''image''))
                 in Inr (Redirect ''admin.products'',
                         st\<lparr>db := (db st)\<lparr>products :=
                                update_row (\<lambda>x. p_id x = pid)
                                  (\<lambda>x. x\<lparr>p_name := py_strip (form_get f ''name''),
                                          p_price := price,
                                          p_description := py_strip (form_get f ''description''),
                                          p_image := (if image_url \<noteq> [] then image_url
                                                      else p_image x),
                                          p_category_id := form_category_id f\<rparr>)
                                  (products (db st))\<rparr>\<rparr>))
          else Inr (Render ''admin/product_form.html'', st))"

definition product_delete :: "int \<Rightarrow> state \<Rightarrow> result" where
  "product_delete pid st = login_required st
     (case get_product (db st) pid of
        None \<Rightarrow> Inr (Abort 404, st)
      | Some _ \<Rightarrow>
          Inr (Redirect ''admin.products'',
               st\<lparr>db := (db st)\<lparr>products := filter (\<lambda>x. p_id x \<noteq> pid) (products (db st))\<rparr>\<rparr>))"

definition admin_orders :: "state \<Rightarrow> result" where
  "admin_orders st = login_required st (Inr (Render ''admin/orders.html'', st))"

text \<open>
  \<open>order_status\<close>. The chain of \<open>if\<close>/\<open>elif\<close> has a branch for four of the five
  accepted codes; \<open>new\<close> is accepted and reaches the commit with no assignment.
\<close>

definition new_label :: "string \<Rightarrow> string \<Rightarrow> string" where
  "new_label new_status old =
     (if new_status = ''pending'' then status_pending
      else if new_status = ''awaiting_payment'' then status_awaiting_admin
      else if new_status = ''paid'' then status_paid
      else if new_status = ''canceled'' then status_canceled
      else old)"

definition order_status :: "int \<Rightarrow> form \<Rightarrow> state \<Rightarrow> result" where
  "order_status order_id f st = login_required st
     (case get_order (db st) order_id of
        None \<Rightarrow> Inr (Abort 404, st)
      | Some order \<Rightarrow>
          let new_status = py_strip (form_get f ''status'')
          in if new_status \<in> {''new'', ''pending'', ''awaiting_payment'', ''paid'', ''canceled''}
             then
               Inr (Redirect ''admin.orders'',
                    \<lparr>db = update_order order_id
                            (\<lambda>x. x\<lparr>o_status := new_label new_status (o_status x)\<rparr>) (db st),
                     session = flash (MsgStatusUpdated (o_id order)
                                       (new_label new_status (o_status order))) (session st)\<rparr>)
             else
               Inr (Redirect ''admin.orders'',
                    st\<lparr>session := flash MsgBadStatus (session st)\<rparr>))"

text \<open>The routes of the blueprint, and a request to one of them.\<close>

datatype admin_request =
    ReqIndex
  | ReqCategories
  | ReqCategoryNew http_method form
  | ReqCategoryEdit int http_method form
  | ReqCategoryDelete int
  | ReqProducts
  | ReqProductNew http_method form "string option"
  | ReqProductEdit int http_method form "string option"
  | ReqProductDelete int
  | ReqOrders
  | ReqOrderStatus int form

fun admin_view :: "builtins \<Rightarrow> admin_request \<Rightarrow> state \<Rightarrow> result" where
  "admin_view lib ReqIndex st = admin_index st"
| "admin_view lib ReqCategories st = admin_categories st"
| "admin_view lib (ReqCategoryNew m f) st = category_new m f st"
| "admin_view lib (ReqCategoryEdit cid m f) st = category_edit cid m f st"
| "admin_view lib (ReqCategoryDelete cid) st = category_delete cid st"
| "admin_view lib ReqProducts st = admin_products st"
| "admin_view lib (ReqProductNew m f upload) st = product_new lib m f upload st"
| "admin_view lib (ReqProductEdit pid m f upload) st = product_edit lib pid m f upload st"
| "admin_view lib (ReqProductDelete pid) st = product_delete pid st"
| "admin_view lib ReqOrders st = admin_orders st"
| "admin_view lib (ReqOrderStatus order_id f) st = order_status order_id f st"

text \<open>
  A request to the blueprint: \<open>_check_admin\<close> is registered with \<open>before_request\<close>, so it
  runs first, and the view runs only when it returns nothing.
\<close>

definition admin_dispatch :: "builtins \<Rightarrow> admin_request \<Rightarrow> state \<Rightarrow> result" where
  "admin_dispatch lib req st =
     (case check_admin st of
        Some r \<Rightarrow> Inr (r, st)
      | None \<Rightarrow> admin_view lib req st)"

section \<open>Accounts (\<open>app/blueprints/auth/routes.py\<close>)\<close>

text \<open>
  \<open>_ts(app).dumps(email)\<close> signs the payload with the current time. \<open>loads\<close> with
  \<open>max_age\<close> raises \<open>BadSignature\<close> on a token that was not signed with the key, and
  \<open>SignatureExpired\<close> on a signed one whose age is above \<open>max_age\<close> or negative.
  \<open>now\<close> is the clock of the request, in seconds.
\<close>

datatype ts_error = SignatureExpired | BadSignature

definition ts_dumps :: "int \<Rightarrow> string \<Rightarrow> token" where
  "ts_dumps now payload = Token payload now"

definition ts_loads :: "int \<Rightarrow> int \<Rightarrow> token \<Rightarrow> ts_error + string" where
  "ts_loads now max_age t =
     (case t of
        BadToken \<Rightarrow> Inl BadSignature
      | Token payload signed_at \<Rightarrow>
          if now - signed_at > max_age \<or> now - signed_at < 0 then Inl SignatureExpired
          else Inr payload)"

definition is_upper :: "char \<Rightarrow> bool" where
  "is_upper c = (65 \<le> (of_char c :: nat) \<and> (of_char c :: nat) \<le> 90)"

definition is_lower :: "char \<Rightarrow> bool" where
  "is_lower c = (97 \<le> (of_char c :: nat) \<and> (of_char c :: nat) \<le> 122)"

text \<open>
  \<open>password_is_strong\<close> (\<open>app/utils.py\<close>): the three searches are for \<open>[A-Z]\<close>,
  \<open>\d\<close> and \<open>[^A-Za-z0-9]\<close>.
\<close>

definition password_is_strong :: "string \<Rightarrow> bool" where
  "password_is_strong password =
     (length password \<ge> 6
      \<and> list_ex is_upper password
      \<and> list_ex is_digit password
      \<and> list_ex (\<lambda>c. \<not> (is_upper c \<or> is_lower c \<or> is_digit c)) password)"

definition update_user :: "int \<Rightarrow> (user \<Rightarrow> user) \<Rightarrow> database \<Rightarrow> database" where
  "update_user i f d = d\<lparr>users := update_row (\<lambda>x. u_id x = i) f (users d)\<rparr>"


text \<open>\<open>login\<close>; \<open>next_url\<close> is \<open>request.args.get("next")\<close>.\<close>

definition login :: "http_method \<Rightarrow> form \<Rightarrow> string option \<Rightarrow> state \<Rightarrow> result" where
  "login m f next_url st =
     (if m = POST then
        (let email = py_lower (py_strip (form_get f ''email''));
             password = form_get f ''password''
         in case user_by_email (db st) email of
              None \<Rightarrow>
                Inr (Render ''login.html'', st\<lparr>session := flash MsgBadLogin (session st)\<rparr>)
            | Some u \<Rightarrow>
                if u_password_hash u = HashOf password then
                  Inr (Redirect (case next_url of None \<Rightarrow> ''shop.index''
                                 | Some n \<Rightarrow> if n = [] then ''shop.index'' else n),
                       st\<lparr>session := (session st)\<lparr>sess_user_id := Some (u_id u)\<rparr>\<rparr>)
                else
                  Inr (Render ''login.html'', st\<lparr>session := flash MsgBadLogin (session st)\<rparr>))
      else Inr (Render ''login.html'', st))"

definition logout :: "state \<Rightarrow> result" where
  "logout st = login_required st
     (Inr (Redirect ''shop.index'',
           st\<lparr>session := flash MsgLoggedOut ((session st)\<lparr>sess_user_id := None\<rparr>)\<rparr>))"

definition send_confirm_email :: "int \<Rightarrow> state \<Rightarrow> result" where
  "send_confirm_email now st = login_required st
     (case current_user st of
        None \<Rightarrow> Inr (Redirect ''auth.login'', st)
      | Some u \<Rightarrow>
          if u_email_confirmed u then
            Inr (Redirect ''auth.profile'',
                 st\<lparr>session := flash MsgAlreadyConfirmed (session st)\<rparr>)
          else
            Inr (Redirect ''auth.profile'',
                 st\<lparr>session := flash (MsgConfirmLink (ts_dumps now (u_email u))) (session st)\<rparr>))"

text \<open>\<open>confirm_email(token)\<close>, with \<open>max_age=60*60*24\<close>.\<close>

definition confirm_email :: "token \<Rightarrow> int \<Rightarrow> state \<Rightarrow> result" where
  "confirm_email t now st = login_required st
     (case current_user st of
        None \<Rightarrow> Inr (Redirect ''auth.login'', st)
      | Some u \<Rightarrow>
          (case ts_loads now (60 * 60 * 24) t of
             Inl SignatureExpired \<Rightarrow>
               Inr (Redirect ''auth.profile'',
                    st\<lparr>session := flash MsgLinkExpired (session st)\<rparr>)
           | Inl BadSignature \<Rightarrow>
               Inr (Redirect ''auth.profile'',
                    st\<lparr>session := flash MsgLinkInvalid (session st)\<rparr>)
           | Inr email \<Rightarrow>
               if py_lower email \<noteq> py_lower (u_email u) then Inr (Plain 403, st)
               else
                 Inr (Redirect ''auth.profile'',
                      \<lparr>db = update_user (u_id u) (\<lambda>x. x\<lparr>u_email_confirmed := True\<rparr>) (db st),
                       session = flash MsgEmailConfirmed (session st)\<rparr>)))"

definition password_forgot :: "http_method \<Rightarrow> form \<Rightarrow> int \<Rightarrow> state \<Rightarrow> result" where
  "password_forgot m f now st =
     (if m = POST then
        (let email = py_lower (py_strip (form_get f ''email''))
         in case user_by_email (db st) email of
              Some _ \<Rightarrow>
                Inr (Redirect ''auth.login'',
                     st\<lparr>session := flash (MsgResetLink (ts_dumps now email)) (session st)\<rparr>)
            | None \<Rightarrow>
                Inr (Redirect ''auth.login'',
                     st\<lparr>session := flash MsgResetSent (session st)\<rparr>))
      else Inr (Render ''password_forgot.html'', st))"

text \<open>
  \<open>password_reset(token)\<close>, with \<open>max_age=60*30\<close>. A redirect to \<open>request.url\<close>
  shows the same page again.
\<close>

definition password_reset :: "token \<Rightarrow> http_method \<Rightarrow> form \<Rightarrow> int \<Rightarrow> state \<Rightarrow> result" where
  "password_reset t m f now st =
     (case ts_loads now (60 * 30) t of
        Inl SignatureExpired \<Rightarrow>
          Inr (Redirect ''auth.password_forgot'',
               st\<lparr>session := flash MsgLinkExpired (session st)\<rparr>)
      | Inl BadSignature \<Rightarrow>
          Inr (Redirect ''auth.password_forgot'',
               st\<lparr>session := flash MsgLinkInvalid (session st)\<rparr>)
      | Inr email \<Rightarrow>
          (case user_by_email (db st) (py_lower email) of
             None \<Rightarrow>
               Inr (Redirect ''auth.password_forgot'',
                    st\<lparr>session := flash MsgUserNotFound (session st)\<rparr>)
           | Some u \<Rightarrow>
               if m = POST then
                 (let pwd = form_get f ''password''; pwd2 = form_get f ''password2''
                  in if pwd \<noteq> pwd2 then
                       Inr (Redirect ''request.url'',
                            st\<lparr>session := flash MsgPasswordsDiffer (session st)\<rparr>)
                     else if \<not> password_is_strong pwd then
                       Inr (Redirect ''request.url'',
                            st\<lparr>session := flash MsgPasswordWeak (session st)\<rparr>)
                     else
                       Inr (Redirect ''auth.login'',
                            \<lparr>db = update_user (u_id u)
                                    (\<lambda>x. x\<lparr>u_password_hash := HashOf pwd\<rparr>) (db st),
                             session = flash MsgPasswordChanged (session st)\<rparr>))
               else Inr (Render ''password_reset.html'', st)))"

section \<open>Example data\<close>

text \<open>A small shop: one category, one product, an administrator, a customer, one order.\<close>

definition demo_product :: product where
  "demo_product = \<lparr>p_id = 1, p_name = ''mug'', p_price = 350.5, p_description = ''a mug'',
     p_image = ''img/mug.png'', p_category_id = Some 1\<rparr>"

definition demo_admin :: user where
  "demo_admin = \<lparr>u_id = 1, u_email = ''admin@shop.test'', u_password_hash = HashOf ''Secret1!'',
     u_is_admin = True, u_full_name = ''Admin'', u_default_address = [], u_avatar = None,
     u_email_confirmed = True\<rparr>"

definition demo_customer :: user where
  "demo_customer = \<lparr>u_id = 2, u_email = ''ann@shop.test'', u_password_hash = HashOf ''Passw0rd!'',
     u_is_admin = False, u_full_name = ''Ann'', u_default_address = ''1 Main St'',
     u_avatar = None, u_email_confirmed = False\<rparr>"

definition demo_order :: order where
  "demo_order = \<lparr>o_id = 1, o_user_id = Some 2, o_customer_name = ''Ann'',
     o_email = ''ann@shop.test'', o_address = ''1 Main St'', o_status = status_pending,
     o_user_order_no = Some 1, o_stripe_session_id = None\<rparr>"

definition demo_db :: database where
  "demo_db = \<lparr>users = [demo_admin, demo_customer],
     categories = [\<lparr>c_id = 1, c_name = ''mugs''\<rparr>],
     products = [demo_product],
     orders = [demo_order],
     order_items = [\<lparr>oi_id = 1, oi_order_id = 1, oi_product_id = 1, oi_quantity = 1,
                     oi_price_snapshot = 350.5\<rparr>]\<rparr>"

text \<open>The same shop seen by a guest with two mugs in the cart, by the customer, by the administrator.\<close>

definition guest_state :: state where
  "guest_state = \<lparr>db = demo_db,
     session = \<lparr>sess_cart = Some [(''1'', 2)], sess_flashes = [], sess_user_id = None\<rparr>\<rparr>"

definition customer_state :: state where
  "customer_state = \<lparr>db = demo_db,
     session = \<lparr>sess_cart = Some [(''1'', 2)], sess_flashes = [], sess_user_id = Some 2\<rparr>\<rparr>"

definition admin_state :: state where
  "admin_state = \<lparr>db = demo_db,
     session = \<lparr>sess_cart = None, sess_flashes = [], sess_user_id = Some 1\<rparr>\<rparr>"

definition no_stripe :: config where
  "no_stripe = \<lparr>STRIPE_SECRET_KEY = None, STRIPE_PUBLISHABLE_KEY = None\<rparr>"

text \<open>
  Requests that update the cart: a form with a zero, a non-integer and a positive
  quantity, and JSON bodies with one item (quantity 0, quantity \<open>"abc"\<close>) or none.
\<close>

definition demo_form :: form where
  "demo_form = [(''qty_1'', ''0''), (''qty_2'', ''x''), (''qty_3'', ''4'')]"

definition remove_item :: json where
  "remove_item = JObj [(''pid'', JStr ''1''), (''qty'', JInt 0)]"

definition bad_qty_item :: json where
  "bad_qty_item = JObj [(''pid'', JStr ''1''), (''qty'', JStr ''abc'')]"

definition items_body :: "json list \<Rightarrow> json option" where
  "items_body its = Some (JObj [(''items'', JArr its)])"

text \<open>Library functions for the examples: prices written as integers, file names kept.\<close>

definition demo_builtins :: builtins where
  "demo_builtins = \<lparr>float_of = (\<lambda>s. map_option real_of_int (py_int_str s)),
     secure_filename = (\<lambda>s. s)\<rparr>"



text \<open>A token signed for the customer at time 1000, and a form with a new password.\<close>

definition demo_token :: token where
  "demo_token = Token ''ann@shop.test'' 1000"

definition reset_form :: form where
  "reset_form = [(''password'', ''N3w-Secret''), (''password2'', ''N3w-Secret'')]"


definition customer_checkout_form :: form where
  "customer_checkout_form = [(''name'', ''Ann''), (''email'', ''ann@shop.test'')]"

section \<open>Verification\<close>

subsection \<open>\<open>str\<close> and \<open>int\<close> on integers\<close>

lemma of_char_digit_char: "d < 10 \<Longrightarrow> (of_char (digit_char d) :: nat) = 48 + d"
  by (simp add: digit_char_def)

lemma is_digit_digit_char: "d < 10 \<Longrightarrow> is_digit (digit_char d)"
  by (simp add: is_digit_def of_char_digit_char)

lemma digit_val_digit_char: "d < 10 \<Longrightarrow> digit_val (digit_char d) = d"
  by (simp add: digit_val_def of_char_digit_char)

lemma digits_of_digits: "c \<in> set (digits_of n) \<Longrightarrow> is_digit c"
proof (induction n rule: digits_of.induct)
  case (1 n)
  then show ?case
    by (subst (asm) (2) digits_of.simps) (auto simp: is_digit_digit_char split: if_splits)
qed

lemma digits_of_nonempty: "digits_of n \<noteq> []"
  by (subst digits_of.simps) simp

lemma parse_digits_snoc:
  "\<forall>c\<in>set ds. is_digit c \<Longrightarrow> is_digit d \<Longrightarrow>
   parse_digits (ds @ [d]) acc = map_option (\<lambda>a. 10 * a + digit_val d) (parse_digits ds acc)"
  by (induction ds arbitrary: acc) auto

lemma parse_decimal_snoc:
  "ds \<noteq> [] \<Longrightarrow> \<forall>c\<in>set ds. is_digit c \<Longrightarrow> is_digit d \<Longrightarrow>
   parse_decimal (ds @ [d]) = map_option (\<lambda>a. 10 * a + digit_val d) (parse_decimal ds)"
  by (cases ds) (auto simp: parse_decimal_def parse_digits_snoc)

lemma parse_decimal_digits_of: "parse_decimal (digits_of n) = Some n"
proof (induction n rule: digits_of.induct)
  case (1 n)
  show ?case
  proof (cases "n < 10")
    case True
    then show ?thesis
      by (subst digits_of.simps)
         (simp add: parse_decimal_def is_digit_digit_char digit_val_digit_char)
  next
    case False
    then have "parse_decimal (digits_of (n div 10)) = Some (n div 10)"
      using 1 by simp
    moreover have "is_digit (digit_char (n mod 10))"
      by (simp add: is_digit_digit_char)
    ultimately show ?thesis
      using False
      by (subst digits_of.simps)
         (simp add: parse_decimal_snoc digits_of_nonempty digits_of_digits digit_val_digit_char)
  qed
qed

lemma py_strip_id:
  assumes "s \<noteq> []" and "\<not> py_isspace (hd s)" and "\<not> py_isspace (last s)"
  shows "py_strip s = s"
proof -
  have "dropWhile py_isspace s = s"
    using assms by (cases s) auto
  moreover have "dropWhile py_isspace (rev s) = rev s"
    using assms by (cases "rev s") (auto simp: hd_rev)
  ultimately show ?thesis
    by (simp add: py_strip_def)
qed

lemma digit_not_space: "is_digit c \<Longrightarrow> \<not> py_isspace c"
  by (auto simp: is_digit_def py_isspace_def)

lemma digit_not_sign: "is_digit c \<Longrightarrow> c \<noteq> CHR ''-'' \<and> c \<noteq> CHR ''+''"
  by (auto simp: is_digit_def)

lemma digits_of_ends:
  "\<not> py_isspace (hd (digits_of n))" "\<not> py_isspace (last (digits_of n))"
  using digits_of_nonempty[of n] digits_of_digits[of _ n] digit_not_space
  by (metis hd_in_set, metis last_in_set)

lemma py_strip_digits_of: "py_strip (digits_of n) = digits_of n"
  by (rule py_strip_id) (simp_all add: digits_of_nonempty digits_of_ends)

lemma py_strip_minus_digits_of: "py_strip (CHR ''-'' # digits_of n) = CHR ''-'' # digits_of n"
proof (rule py_strip_id)
  show "\<not> py_isspace (hd (CHR ''-'' # digits_of n))"
    by (simp add: py_isspace_def)
  show "\<not> py_isspace (last (CHR ''-'' # digits_of n))"
    by (simp add: digits_of_nonempty digits_of_ends)
qed simp

text \<open>\<open>int(str(i)) == i\<close>: the key the cart stores for a product id reads back as that id.\<close>

lemma py_int_str_str_int: "py_int_str (str_int i) = Some i"
proof (cases "i < 0")
  case True
  then show ?thesis
    by (simp add: py_int_str_def str_int_def py_strip_minus_digits_of parse_decimal_digits_of)
next
  case False
  obtain c cs where d: "digits_of (nat i) = c # cs"
    using digits_of_nonempty by (cases "digits_of (nat i)") auto
  then have "is_digit c"
    using digits_of_digits[of c "nat i"] by simp
  then have "c \<noteq> CHR ''-''" "c \<noteq> CHR ''+''"
    using digit_not_sign by auto
  moreover have "parse_decimal (c # cs) = Some (nat i)"
    using parse_decimal_digits_of[of "nat i"] d by simp
  moreover have "py_strip (c # cs) = c # cs"
    using py_strip_digits_of[of "nat i"] d by simp
  ultimately show ?thesis
    using False d by (simp add: py_int_str_def str_int_def)
qed

lemma str_int_inject: "str_int i = str_int j \<longleftrightarrow> i = j"
  by (metis py_int_str_str_int option.inject)

subsection \<open>The cart in the session\<close>

lemma get_cart_save_cart: "get_cart (save_cart c s) = c"
  by (simp add: get_cart_def save_cart_def)

lemma get_cart_flash: "get_cart (flash m s) = get_cart s"
  by (simp add: get_cart_def flash_def)

lemma str_int_1: "str_int 1 = ''1''"
  by code_simp

lemma py_int_str_3: "py_int_str ''3'' = Some 3"
  by code_simp

text \<open>
  Claim C3. \<open>cart_add\<close> for an existing product \<open>pid\<close> and a submitted quantity that
  reads as the integer \<open>qty\<close> (1 when the field is absent) answers without an error,
  sets the cart entry of \<open>str(pid)\<close> to its previous quantity (0 when there was none)
  plus \<open>max(1, qty)\<close>, leaves every other entry as it was, and the cart that
  \<open>get_cart\<close> returns afterwards is that updated cart.
\<close>

theorem cart_add_aggregates:
  assumes "get_product (db st) pid = Some p"
      and "(case map_of f ''qty'' of None \<Rightarrow> Some 1 | Some v \<Rightarrow> py_int_str v) = Some qty"
  shows "\<exists>resp st'. cart_add pid f xhr referrer st = Inr (resp, st')
           \<and> get_cart (session st') =
               AList.update (str_int pid)
                 (dict_get (get_cart (session st)) (str_int pid) 0 + max 1 qty)
                 (get_cart (session st))
           \<and> map_of (get_cart (session st')) (str_int pid) =
               Some ((case map_of (get_cart (session st)) (str_int pid) of
                        None \<Rightarrow> 0 | Some v \<Rightarrow> v) + max 1 qty)
           \<and> (\<forall>k. k \<noteq> str_int pid \<longrightarrow>
                  map_of (get_cart (session st')) k = map_of (get_cart (session st)) k)
           \<and> db st' = db st"
proof (cases xhr)
  case True
  then show ?thesis
    using assms
    by (simp add: cart_add_def Let_def get_cart_save_cart update_conv' dict_get_def)
next
  case False
  then show ?thesis
    using assms
    by (simp add: cart_add_def Let_def get_cart_save_cart get_cart_flash update_conv'
        dict_get_def)
qed

theorem cart_add_aggregates_witness:
  "get_product (db guest_state) 1 = Some demo_product
   \<and> (case map_of [(''qty'', ''3'')] ''qty'' of None \<Rightarrow> Some 1 | Some v \<Rightarrow> py_int_str v)
       = Some 3
   \<and> (\<exists>resp st'. cart_add 1 [(''qty'', ''3'')] False None guest_state = Inr (resp, st')
         \<and> get_cart (session st') = [(''1'', 5)]
         \<and> map_of (get_cart (session st')) ''2'' = map_of (get_cart (session guest_state)) ''2'')"
proof -
  have h1: "get_product (db guest_state) 1 = Some demo_product"
    by (simp add: get_product_def guest_state_def demo_db_def demo_product_def)
  have h2: "(case map_of [(''qty'', ''3'')] ''qty'' of None \<Rightarrow> Some 1
             | Some v \<Rightarrow> py_int_str v) = Some 3"
    by (simp add: py_int_str_3)
  have c: "get_cart (session guest_state) = [(''1'', 2)]"
    by (simp add: guest_state_def get_cart_def)
  from cart_add_aggregates[OF h1 h2, of False None]
  show ?thesis
    using h1 h2 by (auto simp: c str_int_1 dict_get_def)
qed

subsection \<open>\<open>cart_items\<close>\<close>


lemma those_map_None: "x \<in> set xs \<Longrightarrow> f x = None \<Longrightarrow> those (map f xs) = None"
  by (induction xs) (auto split: option.splits)








subsection \<open>\<open>cart_update_api\<close> and \<open>cart_update\<close>\<close>

lemma set_update_subset: "set (AList.update k v c) \<subseteq> insert (k, v) (set c)"
  by (induction c) auto

lemma set_delete_subset: "set (AList.delete k c) \<subseteq> set c"
  by (auto simp: AList.delete_eq)

lemma api_step_cases:
  assumes "api_step c it = Inr c'"
  shows "c' = c \<or> (\<exists>k v. 0 < v \<and> c' = AList.update k v c) \<or> (\<exists>k. c' = AList.delete k c)"
proof -
  have "c' = c \<or> (\<exists>k q. 0 < q \<and> AList.update k q c = c') \<or> (\<exists>k. AList.delete k c = c')"
    using assms
    unfolding api_step_def Let_def
    by (simp add: less_max_iff_disj split: sum.splits if_splits) blast+
  then show ?thesis by blast
qed

lemma api_step_positive:
  assumes "api_step c it = Inr c'" and "\<forall>kv\<in>set c. 0 < snd kv"
  shows "\<forall>kv\<in>set c'. 0 < snd kv"
proof -
  consider "c' = c" | k v where "0 < v" "c' = AList.update k v c" | k where "c' = AList.delete k c"
    using api_step_cases[OF assms(1)] by blast
  then show ?thesis
  proof cases
    case 1
    then show ?thesis using assms(2) by simp
  next
    case 2
    then show ?thesis using assms(2) set_update_subset[of k v c] by auto
  next
    case 3
    then show ?thesis using assms(2) set_delete_subset[of k c] by auto
  qed
qed

lemma api_loop_positive:
  "api_loop c its = Inr c' \<Longrightarrow> \<forall>kv\<in>set c. 0 < snd kv \<Longrightarrow> \<forall>kv\<in>set c'. 0 < snd kv"
proof (induction its arbitrary: c)
  case Nil
  then show ?case by simp
next
  case (Cons it its)
  then obtain c1 where s: "api_step c it = Inr c1" and l: "api_loop c1 its = Inr c'"
    by (auto split: sum.splits)
  from api_step_positive[OF s Cons.prems(2)] Cons.IH[OF l] show ?case by blast
qed

lemma api_loop_append:
  "api_loop c (xs @ ys) = (case api_loop c xs of Inl e \<Rightarrow> Inl e | Inr c' \<Rightarrow> api_loop c' ys)"
  by (induction xs arbitrary: c) (auto split: sum.splits)

lemma api_step_other:
  assumes "api_step c y = Inr c'"
      and "\<forall>v. json_get y ''pid'' JNull = Inr v \<longrightarrow> py_int v \<noteq> Inr n"
  shows "map_of c' (str_int n) = map_of c (str_int n)"
  using assms
  by (auto simp: api_step_def Let_def update_conv' delete_conv' str_int_inject
      split: sum.splits if_splits)

lemma api_loop_other:
  "api_loop c ys = Inr c' \<Longrightarrow>
   \<forall>y\<in>set ys. \<forall>v. json_get y ''pid'' JNull = Inr v \<longrightarrow> py_int v \<noteq> Inr n \<Longrightarrow>
   map_of c' (str_int n) = map_of c (str_int n)"
proof (induction ys arbitrary: c)
  case Nil
  then show ?case by simp
next
  case (Cons y ys)
  then obtain c1 where s: "api_step c y = Inr c1" and l: "api_loop c1 ys = Inr c'"
    by (auto split: sum.splits)
  have "map_of c1 (str_int n) = map_of c (str_int n)"
    using api_step_other[OF s] Cons.prems(2) by simp
  moreover have "map_of c' (str_int n) = map_of c1 (str_int n)"
    using Cons.IH[OF l] Cons.prems(2) by simp
  ultimately show ?case by simp
qed

lemma api_step_remove:
  assumes "json_get it ''pid'' JNull = Inr pv" "py_int pv = Inr n"
      and "json_get it ''qty'' (JInt 0) = Inr qv" "py_int qv = Inr q" "q \<le> 0"
  shows "api_step c it = Inr (AList.delete (str_int n) c)"
  using assms by (simp add: api_step_def Let_def)

lemma api_step_skip:
  assumes "json_get it ''pid'' JNull = Inr pv"
      and "py_int pv = Inl e \<and> caught e
           \<or> (\<exists>n qv e. py_int pv = Inr n \<and> json_get it ''qty'' (JInt 0) = Inr qv
                 \<and> py_int qv = Inl e \<and> caught e)"
  shows "api_step c it = Inr c"
  using assms by (auto simp: api_step_def)

lemma api_loop_skip:
  assumes "\<And>c. api_step c it = Inr c"
  shows "api_loop c (xs @ it # ys) = api_loop c (xs @ ys)"
  by (simp add: api_loop_append assms split: sum.splits)

lemma form_items_subset: "set (form_items f) \<subseteq> set f"
  by (induction f rule: form_items.induct) auto

lemma form_items_distinct: "distinct (map fst (form_items f))"
proof (induction f rule: form_items.induct)
  case 1
  then show ?case by simp
next
  case (2 kv f)
  have "fst kv \<notin> fst ` set (form_items (filter (\<lambda>x. fst x \<noteq> fst kv) f))"
    using form_items_subset[of "filter (\<lambda>x. fst x \<noteq> fst kv) f"] by auto
  with 2 show ?case by simp
qed

lemma startswith_qty: "startswith k ''qty_'' \<Longrightarrow> k = ''qty_'' @ after_underscore k"
  by (cases k; cases "tl k"; cases "tl (tl k)"; cases "tl (tl (tl k))")
     (auto simp: startswith_def after_underscore_def)

lemma cart_update_loop_positive:
  "\<forall>kv\<in>set c. 0 < snd kv \<Longrightarrow> \<forall>kv\<in>set (cart_update_loop kvs c). 0 < snd kv"
proof (induction kvs arbitrary: c)
  case Nil
  then show ?case by simp
next
  case (Cons kv kvs)
  let ?qty = "case py_int_str (snd kv) of None \<Rightarrow> 0 | Some v \<Rightarrow> max 0 v"
  let ?c1 = "if ?qty > 0 then AList.update (after_underscore (fst kv)) ?qty c else c"
  have "\<forall>x\<in>set ?c1. 0 < snd x"
    using Cons.prems set_update_subset[of "after_underscore (fst kv)" ?qty c] by auto
  then have "\<forall>x\<in>set (cart_update_loop kvs ?c1). 0 < snd x"
    by (rule Cons.IH)
  moreover have "\<forall>x\<in>set (cart_update_loop kvs c). 0 < snd x"
    using Cons.prems by (rule Cons.IH)
  ultimately show ?case
    by (simp add: Let_def)
qed

lemma cart_update_loop_absent:
  assumes "map_of c k = None"
      and "\<forall>kv\<in>set kvs. startswith (fst kv) ''qty_'' \<and> after_underscore (fst kv) = k \<longrightarrow>
             (case py_int_str (snd kv) of None \<Rightarrow> 0 | Some v \<Rightarrow> max 0 v) \<le> 0"
  shows "map_of (cart_update_loop kvs c) k = None"
  using assms
proof (induction kvs arbitrary: c)
  case Nil
  then show ?case by simp
next
  case (Cons kv kvs)
  let ?qty = "case py_int_str (snd kv) of None \<Rightarrow> 0 | Some v \<Rightarrow> max 0 v"
  let ?c1 = "if ?qty > 0 then AList.update (after_underscore (fst kv)) ?qty c else c"
  have rest: "\<forall>kv\<in>set kvs. startswith (fst kv) ''qty_'' \<and> after_underscore (fst kv) = k \<longrightarrow>
             (case py_int_str (snd kv) of None \<Rightarrow> 0 | Some v \<Rightarrow> max 0 v) \<le> 0"
    using Cons.prems(2) by simp
  show ?case
  proof (cases "startswith (fst kv) ''qty_''")
    case False
    then show ?thesis using Cons.IH[OF Cons.prems(1) rest] by simp
  next
    case True
    have "map_of ?c1 k = None"
    proof (cases "?qty > 0")
      case False
      then show ?thesis using Cons.prems(1) by simp
    next
      case q: True
      then have "after_underscore (fst kv) \<noteq> k"
        using Cons.prems(2) True by auto
      then show ?thesis using Cons.prems(1) q by (simp add: update_conv')
    qed
    from Cons.IH[OF this rest] show ?thesis using True by (simp add: Let_def)
  qed
qed


lemma get_cart_cart_update:
  "cart_update f st = Inr (Redirect ''shop.cart_view'', st') \<Longrightarrow>
   get_cart (session st') = cart_update_loop (form_items f) []"
  by (auto simp: cart_update_def get_cart_flash get_cart_save_cart)

lemma form_field_unique:
  assumes "kv \<in> set (form_items f)" "kv' \<in> set (form_items f)"
      and "startswith (fst kv) ''qty_''" "startswith (fst kv') ''qty_''"
      and "after_underscore (fst kv') = after_underscore (fst kv)"
  shows "kv' = kv"
proof -
  have "fst kv' = fst kv"
    using startswith_qty[OF assms(3)] startswith_qty[OF assms(4)] assms(5) by simp
  then show ?thesis
    using form_items_distinct[of f] assms(1,2) by (metis eq_key_imp_eq_value prod.collapse)
qed

lemma cart_update_api_saved:
  assumes "cart_update_api body st = Inr (resp, st')"
  shows "\<exists>its. request_items body = Inr its
           \<and> api_loop (get_cart (session st)) its = Inr (get_cart (session st'))"
  using assms
  by (auto simp: cart_update_api_def get_cart_save_cart split: sum.splits)

text \<open>
  Claim C9, as amended. Both cart updates keep every stored quantity strictly positive
  (the JSON API given that the cart it starts from has only positive quantities; the
  form builds the cart anew). In the HTML form, a field \<open>qty_<pid>\<close> whose value is
  zero or less or not an integer leaves \<open>pid\<close> out of the saved cart. In the JSON API,
  an item with an integer pid and a quantity of zero or less leaves that product out of
  the saved cart unless a later item of the request names it again, and an item whose
  pid or qty is not an integer (\<open>int\<close> raises \<open>TypeError\<close> or \<open>ValueError\<close>) is
  skipped: the request does what it does without that item, so an entry the cart already
  has for that product stays.
\<close>

theorem cart_updates_positive:
  "(\<exists>resp st'. cart_update f st = Inr (resp, st')
       \<and> (\<forall>kv\<in>set (get_cart (session st')). 0 < snd kv)
       \<and> (\<forall>kv\<in>set (form_items f).
             startswith (fst kv) ''qty_'' \<and> (\<forall>q. py_int_str (snd kv) = Some q \<longrightarrow> q \<le> 0)
             \<longrightarrow> map_of (get_cart (session st')) (after_underscore (fst kv)) = None))
   \<and> (cart_update_api body st = Inr (resp2, st2)
        \<and> (\<forall>kv\<in>set (get_cart (session st)). 0 < snd kv)
        \<longrightarrow> (\<forall>kv\<in>set (get_cart (session st2)). 0 < snd kv))
   \<and> (cart_update_api body st = Inr (resp2, st2)
        \<and> request_items body = Inr (xs @ it # ys)
        \<and> json_get it ''pid'' JNull = Inr pv \<and> py_int pv = Inr n
        \<and> json_get it ''qty'' (JInt 0) = Inr qv \<and> py_int qv = Inr q \<and> q \<le> 0
        \<and> (\<forall>y\<in>set ys. \<forall>v. json_get y ''pid'' JNull = Inr v \<longrightarrow> py_int v \<noteq> Inr n)
        \<longrightarrow> map_of (get_cart (session st2)) (str_int n) = None)
   \<and> (request_items body1 = Inr (xs1 @ it1 # ys1) \<and> request_items body' = Inr (xs1 @ ys1)
        \<and> json_get it1 ''pid'' JNull = Inr pv1
        \<and> (py_int pv1 = Inl e \<and> caught e
            \<or> (\<exists>m qv'. py_int pv1 = Inr m \<and> json_get it1 ''qty'' (JInt 0) = Inr qv'
                  \<and> py_int qv' = Inl e \<and> caught e))
        \<longrightarrow> cart_update_api body1 st = cart_update_api body' st)"
proof (intro conjI)
  let ?c = "cart_update_loop (form_items f) []"
  let ?st' = "st\<lparr>session := flash MsgCartUpdated (save_cart ?c (session st))\<rparr>"
  have r: "cart_update f st = Inr (Redirect ''shop.cart_view'', ?st')"
    by (simp add: cart_update_def)
  have g: "get_cart (session ?st') = ?c"
    by (simp add: get_cart_flash get_cart_save_cart)
  have pos: "\<forall>kv\<in>set ?c. 0 < snd kv"
    by (rule cart_update_loop_positive) simp
  have absent: "\<forall>kv\<in>set (form_items f).
             startswith (fst kv) ''qty_'' \<and> (\<forall>q. py_int_str (snd kv) = Some q \<longrightarrow> q \<le> 0)
             \<longrightarrow> map_of ?c (after_underscore (fst kv)) = None"
  proof (intro ballI impI)
    fix kv
    assume kv: "kv \<in> set (form_items f)"
      and bad: "startswith (fst kv) ''qty_'' \<and> (\<forall>q. py_int_str (snd kv) = Some q \<longrightarrow> q \<le> 0)"
    show "map_of ?c (after_underscore (fst kv)) = None"
    proof (rule cart_update_loop_absent)
      show "map_of [] (after_underscore (fst kv)) = (None :: int option)" by simp
      show "\<forall>kv'\<in>set (form_items f).
              startswith (fst kv') ''qty_'' \<and> after_underscore (fst kv') = after_underscore (fst kv)
              \<longrightarrow> (case py_int_str (snd kv') of None \<Rightarrow> 0 | Some v \<Rightarrow> max 0 v) \<le> 0"
      proof (intro ballI impI)
        fix kv'
        assume kv': "kv' \<in> set (form_items f)"
          and same: "startswith (fst kv') ''qty_'' \<and> after_underscore (fst kv') = after_underscore (fst kv)"
        have "kv' = kv"
          using form_field_unique[OF kv kv'] bad same by simp
        then show "(case py_int_str (snd kv') of None \<Rightarrow> 0 | Some v \<Rightarrow> max 0 v) \<le> 0"
          using bad by (auto split: option.splits)
      qed
    qed
  qed
  show "\<exists>resp st'. cart_update f st = Inr (resp, st')
       \<and> (\<forall>kv\<in>set (get_cart (session st')). 0 < snd kv)
       \<and> (\<forall>kv\<in>set (form_items f).
             startswith (fst kv) ''qty_'' \<and> (\<forall>q. py_int_str (snd kv) = Some q \<longrightarrow> q \<le> 0)
             \<longrightarrow> map_of (get_cart (session st')) (after_underscore (fst kv)) = None)"
  proof (intro exI conjI)
    show "cart_update f st = Inr (Redirect ''shop.cart_view'', ?st')" by (rule r)
    show "\<forall>kv\<in>set (get_cart (session ?st')). 0 < snd kv"
      using pos by (simp only: g)
    show "\<forall>kv\<in>set (form_items f).
             startswith (fst kv) ''qty_'' \<and> (\<forall>q. py_int_str (snd kv) = Some q \<longrightarrow> q \<le> 0)
             \<longrightarrow> map_of (get_cart (session ?st')) (after_underscore (fst kv)) = None"
      using absent by (simp only: g)
  qed
next
  show "cart_update_api body st = Inr (resp2, st2)
        \<and> (\<forall>kv\<in>set (get_cart (session st)). 0 < snd kv)
        \<longrightarrow> (\<forall>kv\<in>set (get_cart (session st2)). 0 < snd kv)"
    using cart_update_api_saved api_loop_positive by blast
next
  show "cart_update_api body st = Inr (resp2, st2)
        \<and> request_items body = Inr (xs @ it # ys)
        \<and> json_get it ''pid'' JNull = Inr pv \<and> py_int pv = Inr n
        \<and> json_get it ''qty'' (JInt 0) = Inr qv \<and> py_int qv = Inr q \<and> q \<le> 0
        \<and> (\<forall>y\<in>set ys. \<forall>v. json_get y ''pid'' JNull = Inr v \<longrightarrow> py_int v \<noteq> Inr n)
        \<longrightarrow> map_of (get_cart (session st2)) (str_int n) = None"
  proof (intro impI, elim conjE)
    assume a: "cart_update_api body st = Inr (resp2, st2)"
      and its: "request_items body = Inr (xs @ it # ys)"
      and it: "json_get it ''pid'' JNull = Inr pv" "py_int pv = Inr n"
              "json_get it ''qty'' (JInt 0) = Inr qv" "py_int qv = Inr q" "q \<le> 0"
      and later: "\<forall>y\<in>set ys. \<forall>v. json_get y ''pid'' JNull = Inr v \<longrightarrow> py_int v \<noteq> Inr n"
    from cart_update_api_saved[OF a] its
    have l: "api_loop (get_cart (session st)) (xs @ it # ys) = Inr (get_cart (session st2))"
      by simp
    then obtain c1 where c1: "api_loop (get_cart (session st)) xs = Inr c1"
      and l2: "api_loop c1 (it # ys) = Inr (get_cart (session st2))"
      by (auto simp: api_loop_append split: sum.splits)
    from l2 have l3: "api_loop (AList.delete (str_int n) c1) ys = Inr (get_cart (session st2))"
      by (simp add: api_step_remove[OF it])
    from api_loop_other[OF l3 later]
    show "map_of (get_cart (session st2)) (str_int n) = None"
      by (simp add: delete_conv')
  qed
next
  show "request_items body1 = Inr (xs1 @ it1 # ys1) \<and> request_items body' = Inr (xs1 @ ys1)
        \<and> json_get it1 ''pid'' JNull = Inr pv1
        \<and> (py_int pv1 = Inl e \<and> caught e
            \<or> (\<exists>m qv'. py_int pv1 = Inr m \<and> json_get it1 ''qty'' (JInt 0) = Inr qv'
                  \<and> py_int qv' = Inl e \<and> caught e))
        \<longrightarrow> cart_update_api body1 st = cart_update_api body' st"
  proof (intro impI, elim conjE)
    assume b: "request_items body1 = Inr (xs1 @ it1 # ys1)"
      and b': "request_items body' = Inr (xs1 @ ys1)"
      and p: "json_get it1 ''pid'' JNull = Inr pv1"
      and bad: "py_int pv1 = Inl e \<and> caught e
            \<or> (\<exists>m qv'. py_int pv1 = Inr m \<and> json_get it1 ''qty'' (JInt 0) = Inr qv'
                  \<and> py_int qv' = Inl e \<and> caught e)"
    have "\<And>c. api_step c it1 = Inr c"
      using api_step_skip[OF p] bad by blast
    then have "api_loop (get_cart (session st)) (xs1 @ it1 # ys1)
             = api_loop (get_cart (session st)) (xs1 @ ys1)"
      by (rule api_loop_skip)
    then show "cart_update_api body1 st = cart_update_api body' st"
      by (simp add: cart_update_api_def b b')
  qed
qed

lemma py_int_str_1: "py_int_str ''1'' = Some 1" by code_simp
lemma py_int_str_abc: "py_int_str ''abc'' = None" by code_simp
lemma py_int_str_0: "py_int_str ''0'' = Some 0" by code_simp
lemma py_int_str_x: "py_int_str ''x'' = None" by code_simp
lemma py_int_str_4: "py_int_str ''4'' = Some 4" by code_simp

lemma request_items_body: "request_items (items_body its) = Inr its"
  by (simp add: request_items_def items_body_def)

lemma cart_items_demo_1: "cart_items (products (db guest_state)) [(''1'', 2)]
   = Inr ([\<lparr>row_product = demo_product, row_qty = 2, row_line_total = 701\<rparr>], 701)"
  by (simp add: cart_items_def py_int_str_1 guest_state_def demo_db_def demo_product_def
      str_int_1 dict_get_def)

lemma cart_items_nil: "cart_items table [] = Inr ([], 0)"
  by (simp add: cart_items_def)

lemma guest_cart: "get_cart (session guest_state) = [(''1'', 2)]"
  by (simp add: guest_state_def get_cart_def)

text \<open>
  The claim as stated fails in the JSON API for a quantity that is not an integer: the
  item is skipped, and the product stays in the saved cart with its quantity.
\<close>

theorem cart_update_api_counterexample:
  "py_int (JStr ''abc'') = Inl ValueError
   \<and> cart_update_api (items_body [bad_qty_item]) guest_state =
       Inr (JsonCartUpdate 1,
            guest_state\<lparr>session := save_cart [(''1'', 2)] (session guest_state)\<rparr>)"
  by (simp add: cart_update_api_def request_items_body guest_cart api_step_def
      bad_qty_item_def py_int_str_1 py_int_str_abc caught_def cart_items_demo_1)


lemma form_items_demo: "form_items demo_form = demo_form"
  by (simp add: demo_form_def)

lemma cart_update_api_remove:
  "cart_update_api (items_body [remove_item]) guest_state =
     Inr (JsonCartUpdate 0, guest_state\<lparr>session := save_cart [] (session guest_state)\<rparr>)"
  by (simp add: cart_update_api_def request_items_body guest_cart api_step_def
      remove_item_def py_int_str_1 str_int_1 AList.delete_eq cart_items_nil)

theorem cart_updates_positive_witness:
  "(''qty_1'', ''0'') \<in> set (form_items demo_form)
   \<and> startswith ''qty_1'' ''qty_'' \<and> py_int_str ''0'' = Some 0
   \<and> (\<exists>resp st'. cart_update demo_form guest_state = Inr (resp, st')
         \<and> (\<forall>kv\<in>set (get_cart (session st')). 0 < snd kv)
         \<and> map_of (get_cart (session st')) ''1'' = None)
   \<and> get_cart (session guest_state) = [(''1'', 2)]
   \<and> cart_update_api (items_body [remove_item]) guest_state =
        Inr (JsonCartUpdate 0, guest_state\<lparr>session := save_cart [] (session guest_state)\<rparr>)
   \<and> map_of (get_cart (session
          (guest_state\<lparr>session := save_cart [] (session guest_state)\<rparr>))) ''1'' = None
   \<and> py_int (JStr ''abc'') = Inl ValueError \<and> caught ValueError
   \<and> cart_update_api (items_body [bad_qty_item]) guest_state =
        cart_update_api (items_body []) guest_state"
proof -
  let ?S0 = "guest_state\<lparr>session := save_cart [] (session guest_state)\<rparr>"
  note inst = cart_updates_positive[where f = demo_form and st = guest_state
      and body = "items_body [remove_item]" and ?resp2.0 = "JsonCartUpdate 0" and ?st2.0 = ?S0
      and xs = "[]" and it = remove_item and ys = "[]" and pv = "JStr ''1''" and n = 1
      and qv = "JInt 0" and q = 0
      and ?body1.0 = "items_body [bad_qty_item]" and ?xs1.0 = "[]" and ?it1.0 = bad_qty_item
      and ?ys1.0 = "[]" and body' = "items_body []" and ?pv1.0 = "JStr ''1''"
      and e = ValueError]
  have h1: "(''qty_1'', ''0'') \<in> set (form_items demo_form)"
    by (simp add: form_items_demo) (simp add: demo_form_def)
  have h2: "startswith ''qty_1'' ''qty_''"
    by (simp add: startswith_def)
  have h3: "\<forall>q. py_int_str (snd (''qty_1'', ''0'')) = Some q \<longrightarrow> q \<le> 0"
    by (simp add: py_int_str_0)
  have au: "after_underscore (fst (''qty_1'', ''0'')) = ''1''"
    by (simp add: after_underscore_def)
  from inst obtain resp st' where
      r: "cart_update demo_form guest_state = Inr (resp, st')"
      and pos: "\<forall>kv\<in>set (get_cart (session st')). 0 < snd kv"
      and ab: "\<forall>kv\<in>set (form_items demo_form).
             startswith (fst kv) ''qty_'' \<and> (\<forall>q. py_int_str (snd kv) = Some q \<longrightarrow> q \<le> 0)
             \<longrightarrow> map_of (get_cart (session st')) (after_underscore (fst kv)) = None"
    by blast
  from ab h1 h2 h3 have "map_of (get_cart (session st')) (after_underscore (fst (''qty_1'', ''0''))) = None"
    by fastforce
  then have w1: "\<exists>resp st'. cart_update demo_form guest_state = Inr (resp, st')
         \<and> (\<forall>kv\<in>set (get_cart (session st')). 0 < snd kv)
         \<and> map_of (get_cart (session st')) ''1'' = None"
    using r pos au by auto
  have h5: "request_items (items_body [remove_item]) = Inr ([] @ remove_item # [])"
    by (simp add: request_items_body)
  have h6: "json_get remove_item ''pid'' JNull = Inr (JStr ''1'')" "py_int (JStr ''1'') = Inr 1"
    "json_get remove_item ''qty'' (JInt 0) = Inr (JInt 0)" "py_int (JInt 0) = Inr 0"
    by (simp_all add: remove_item_def py_int_str_1)
  from inst cart_update_api_remove h5 h6 have w2: "map_of (get_cart (session ?S0)) (str_int 1) = None"
    by simp
  have h7: "request_items (items_body [bad_qty_item]) = Inr ([] @ bad_qty_item # [])"
    "request_items (items_body []) = Inr ([] @ [])"
    by (simp_all add: request_items_body)
  have h8: "json_get bad_qty_item ''pid'' JNull = Inr (JStr ''1'')"
    "json_get bad_qty_item ''qty'' (JInt 0) = Inr (JStr ''abc'')"
    "py_int (JStr ''abc'') = Inl ValueError" "caught ValueError"
    by (simp_all add: bad_qty_item_def py_int_str_abc caught_def)
  from inst h7 h8 h6(2) have w3: "cart_update_api (items_body [bad_qty_item]) guest_state =
        cart_update_api (items_body []) guest_state"
    by blast
  show ?thesis
    using h1 h2 w1 guest_cart cart_update_api_remove w2 h8(3,4) w3
    by (simp add: py_int_str_0 str_int_1)
qed


text \<open>
  The form does not check the part of the field name after \<open>qty_\<close>: any text becomes a
  key of the cart.
\<close>

lemma cart_update_stores_any_key:
  "cart_update [(''qty_abc'', ''1'')] st =
     Inr (Redirect ''shop.cart_view'',
          st\<lparr>session := flash MsgCartUpdated (save_cart [(''abc'', 1)] (session st))\<rparr>)"
  by (simp add: cart_update_def startswith_def after_underscore_def py_int_str_1)

subsection \<open>\<open>payment_success\<close>\<close>

lemma find_update_row_same:
  assumes "\<And>x. key (f x) = key x"
  shows "find (\<lambda>x. key x = i) (update_row (\<lambda>x. key x = i) f xs)
           = map_option f (find (\<lambda>x. key x = i) xs)"
  by (induction xs) (auto simp: assms)




lemma update_order_tables:
  "users (update_order i f d) = users d" "products (update_order i f d) = products d"
  "categories (update_order i f d) = categories d" "order_items (update_order i f d) = order_items d"
  by (simp_all add: update_order_def)





subsection \<open>\<open>order_status\<close>\<close>

lemma current_user_admin: "current_user admin_state = Some demo_admin"
  by (simp add: current_user_def admin_state_def get_user_def demo_db_def demo_admin_def)

lemma get_order_admin: "get_order (db admin_state) 1 = Some demo_order"
  by (simp add: get_order_def admin_state_def demo_db_def demo_order_def)

lemma py_strip_new: "py_strip ''new'' = ''new''"
  by (simp add: py_strip_def py_isspace_def)

lemma py_strip_paid: "py_strip ''paid'' = ''paid''"
  by (simp add: py_strip_def py_isspace_def)

lemma update_row_id: "(\<And>x. P x \<Longrightarrow> f x = x) \<Longrightarrow> update_row P f xs = xs"
  by (induction xs) auto

text \<open>What \<open>order_status\<close> does with each submitted status, for an administrator.\<close>

lemma order_status_labels:
  assumes "current_user st = Some u" and "get_order (db st) i = Some ord"
  shows "\<exists>st'. order_status i f st = Inr (Redirect ''admin.orders'', st')
     \<and> get_order (db st') i = Some (ord\<lparr>o_status :=
          (if py_strip (form_get f ''status'') = ''pending'' then status_pending
           else if py_strip (form_get f ''status'') = ''awaiting_payment'' then status_awaiting_admin
           else if py_strip (form_get f ''status'') = ''paid'' then status_paid
           else if py_strip (form_get f ''status'') = ''canceled'' then status_canceled
           else o_status ord)\<rparr>)"
proof (cases "py_strip (form_get f ''status'')
               \<in> {''new'', ''pending'', ''awaiting_payment'', ''paid'', ''canceled''}")
  case True
  then show ?thesis
    using assms
    by (simp add: order_status_def login_required_def Let_def get_order_def update_order_def
        find_update_row_same[where key = o_id] new_label_def)
next
  case False
  then show ?thesis
    using assms
    by (simp add: order_status_def login_required_def Let_def)
qed

text \<open>
  Claim C4 says that each of the five accepted codes is translated to its label. The
  handler accepts \<open>new\<close> but has no branch for it: for the administrator and order 1,
  whose status is the "processing" label, the submitted status \<open>new\<close> leaves the
  status as it was, and the handler reports the status as updated.
\<close>

theorem order_status_new_keeps_status:
  "order_status 1 [(''status'', ''new'')] admin_state =
     Inr (Redirect ''admin.orders'',
          admin_state\<lparr>session := flash (MsgStatusUpdated 1 status_pending) (session admin_state)\<rparr>)"
proof -
  have "update_order 1 (\<lambda>x. x\<lparr>o_status := new_label ''new'' (o_status x)\<rparr>) (db admin_state)
          = db admin_state"
    by (simp add: update_order_def new_label_def update_row_id)
  then show ?thesis
    by (simp add: order_status_def login_required_def current_user_admin get_order_admin
        form_get_def py_strip_new Let_def new_label_def demo_order_def)
qed

subsection \<open>The admin check\<close>

lemma current_user_customer: "current_user customer_state = Some demo_customer"
  by (simp add: current_user_def customer_state_def get_user_def demo_db_def demo_admin_def
      demo_customer_def)

lemma current_user_guest: "current_user guest_state = None"
  by (simp add: current_user_def guest_state_def)

lemma check_admin_iff:
  "check_admin st = None \<longleftrightarrow> (\<exists>u. current_user st = Some u \<and> u_is_admin u)"
  by (auto simp: check_admin_def admin_required_def split: option.splits)

lemma check_admin_403:
  "check_admin st \<noteq> None \<Longrightarrow> check_admin st = Some (Abort 403)"
  by (auto simp: check_admin_def admin_required_def split: option.splits if_splits)

text \<open>
  Claim C6. A request to any route of the admin blueprint runs the route's view only
  when the current user is logged in and has \<open>is_admin\<close>; for every other requester
  the request ends with 403 before the view, and the whole state (categories, products
  and orders with it) is as before.
\<close>

theorem admin_routes_need_admin:
  "((\<exists>u. current_user st = Some u \<and> u_is_admin u)
      \<longrightarrow> admin_dispatch lib req st = admin_view lib req st)
   \<and> (\<not> (\<exists>u. current_user st = Some u \<and> u_is_admin u)
      \<longrightarrow> admin_dispatch lib req st = Inr (Abort 403, st))"
proof (intro conjI impI)
  assume "\<exists>u. current_user st = Some u \<and> u_is_admin u"
  then have "check_admin st = None" by (simp add: check_admin_iff)
  then show "admin_dispatch lib req st = admin_view lib req st"
    by (simp add: admin_dispatch_def)
next
  assume "\<not> (\<exists>u. current_user st = Some u \<and> u_is_admin u)"
  then have "check_admin st = Some (Abort 403)"
    using check_admin_iff check_admin_403 by blast
  then show "admin_dispatch lib req st = Inr (Abort 403, st)"
    by (simp add: admin_dispatch_def)
qed

lemma get_category_admin: "get_category (db admin_state) 1 = Some \<lparr>c_id = 1, c_name = ''mugs''\<rparr>"
  by (simp add: get_category_def admin_state_def demo_db_def)

lemma category_delete_admin:
  "\<exists>st'. category_delete 1 admin_state = Inr (Redirect ''admin.categories'', st')
         \<and> categories (db st') = []"
proof -
  have "filter (\<lambda>x. c_id x \<noteq> 1) (categories (db admin_state)) = []"
    by (simp add: admin_state_def demo_db_def)
  then show ?thesis
    by (simp add: category_delete_def login_required_def current_user_admin get_category_admin)
qed

theorem admin_routes_need_admin_witness:
  "current_user admin_state = Some demo_admin \<and> u_is_admin demo_admin
   \<and> categories (db admin_state) \<noteq> []
   \<and> (\<exists>st'. admin_dispatch demo_builtins (ReqCategoryDelete 1) admin_state
               = Inr (Redirect ''admin.categories'', st') \<and> categories (db st') = [])
   \<and> current_user customer_state = Some demo_customer \<and> \<not> u_is_admin demo_customer
   \<and> admin_dispatch demo_builtins (ReqCategoryDelete 1) customer_state
       = Inr (Abort 403, customer_state)
   \<and> current_user guest_state = None
   \<and> admin_dispatch demo_builtins (ReqCategoryDelete 1) guest_state
       = Inr (Abort 403, guest_state)"
proof -
  have a: "u_is_admin demo_admin" by (simp add: demo_admin_def)
  have c: "\<not> u_is_admin demo_customer" by (simp add: demo_customer_def)
  have n: "categories (db admin_state) \<noteq> []" by (simp add: admin_state_def demo_db_def)
  from admin_routes_need_admin[of admin_state demo_builtins "ReqCategoryDelete 1"]
    current_user_admin a
  have "admin_dispatch demo_builtins (ReqCategoryDelete 1) admin_state
          = category_delete 1 admin_state"
    by simp
  with category_delete_admin
  have w1: "\<exists>st'. admin_dispatch demo_builtins (ReqCategoryDelete 1) admin_state
               = Inr (Redirect ''admin.categories'', st') \<and> categories (db st') = []"
    by simp
  from admin_routes_need_admin[of customer_state demo_builtins "ReqCategoryDelete 1"]
    current_user_customer c
  have w2: "admin_dispatch demo_builtins (ReqCategoryDelete 1) customer_state
       = Inr (Abort 403, customer_state)"
    by simp
  from admin_routes_need_admin[of guest_state demo_builtins "ReqCategoryDelete 1"]
    current_user_guest
  have w3: "admin_dispatch demo_builtins (ReqCategoryDelete 1) guest_state
       = Inr (Abort 403, guest_state)"
    by simp
  show ?thesis
    using current_user_admin a n w1 current_user_customer c w2 current_user_guest w3 by simp
qed

subsection \<open>\<open>register\<close>\<close>














subsection \<open>Confirmation and reset links\<close>

lemma ts_loads_Inr:
  "ts_loads now max_age t = Inr e \<longleftrightarrow>
     (\<exists>ts. t = Token e ts \<and> 0 \<le> now - ts \<and> now - ts \<le> max_age)"
  by (cases t) (auto simp: ts_loads_def)

lemma ts_loads_Inl:
  "(\<exists>err. ts_loads now max_age t = Inl err) \<longleftrightarrow>
     (t = BadToken \<or> (\<exists>e ts. t = Token e ts \<and> (now - ts > max_age \<or> now - ts < 0)))"
  by (cases t) (auto simp: ts_loads_def)

lemma current_user_id: "current_user st = Some u \<Longrightarrow> get_user (db st) (u_id u) = Some u"
  by (auto simp: current_user_def get_user_def split: option.splits dest: find_Some_iff[THEN iffD1])

lemma get_user_update_user:
  "(\<And>x. u_id (f x) = u_id x) \<Longrightarrow> get_user (update_user i f d) i = map_option f (get_user d i)"
  by (simp add: get_user_def update_user_def find_update_row_same[where key = u_id])

lemma confirm_email_cases:
  "confirm_email t now st =
     (case current_user st of
        None \<Rightarrow> Inr (Redirect ''auth.login'', st\<lparr>session := flash MsgPleaseLogIn (session st)\<rparr>)
      | Some u \<Rightarrow>
          (case ts_loads now 86400 t of
             Inl err \<Rightarrow> Inr (Redirect ''auth.profile'',
                            st\<lparr>session := flash (if err = SignatureExpired then MsgLinkExpired
                                                   else MsgLinkInvalid) (session st)\<rparr>)
           | Inr email \<Rightarrow>
               if py_lower email \<noteq> py_lower (u_email u) then Inr (Plain 403, st)
               else Inr (Redirect ''auth.profile'',
                      \<lparr>db = update_user (u_id u) (\<lambda>x. x\<lparr>u_email_confirmed := True\<rparr>) (db st),
                       session = flash MsgEmailConfirmed (session st)\<rparr>)))"
  by (auto simp: confirm_email_def login_required_def split: option.splits sum.splits ts_error.splits)

lemma password_reset_rejects:
  assumes "ts_loads now 1800 t = Inl err"
  shows "password_reset t m f now st =
     Inr (Redirect ''auth.password_forgot'',
          st\<lparr>session := flash (if err = SignatureExpired then MsgLinkExpired
                                 else MsgLinkInvalid) (session st)\<rparr>)"
  using assms by (cases err) (simp_all add: password_reset_def)


lemma password_reset_result:
  "\<exists>resp st'. password_reset t m f now st = Inr (resp, st')
     \<and> (db st' \<noteq> db st \<or> resp = Render ''password_reset.html''
          \<longrightarrow> (\<exists>e. ts_loads now 1800 t = Inr e))"
proof (cases "ts_loads now 1800 t")
  case (Inl err)
  then show ?thesis by (simp add: password_reset_rejects)
next
  case (Inr e)
  then show ?thesis
    by (simp add: password_reset_def Let_def split: option.splits)
qed

text \<open>
  Claim C5. \<open>confirm_email\<close> changes the database only for a logged-in user and a
  token that was signed at most 24 hours before and whose signed email is the user's
  email (the handler compares the two in lower case), and for such a token it sets the
  user's \<open>email_confirmed\<close>. \<open>password_reset\<close> shows its form or changes a password
  only for a token signed at most 30 minutes before, and with such a token, a known
  email and two equal strong passwords it stores the new password. For a token that is
  badly signed or too old, both handlers redirect with an error message and leave
  the database as it was.
\<close>

theorem token_links_time_limited:
  "(\<exists>resp st'. confirm_email t now st = Inr (resp, st')
      \<and> (db st' \<noteq> db st \<longrightarrow>
            (\<exists>u e ts. current_user st = Some u \<and> t = Token e ts
               \<and> 0 \<le> now - ts \<and> now - ts \<le> 60 * 60 * 24
               \<and> py_lower e = py_lower (u_email u))))
   \<and> (current_user st = Some u \<and> t = Token e ts
        \<and> 0 \<le> now - ts \<and> now - ts \<le> 60 * 60 * 24
        \<and> py_lower e = py_lower (u_email u)
        \<longrightarrow> (\<exists>st'. confirm_email t now st = Inr (Redirect ''auth.profile'', st')
               \<and> get_user (db st') (u_id u) = Some (u\<lparr>u_email_confirmed := True\<rparr>)))
   \<and> (t = BadToken \<or> (\<exists>e ts. t = Token e ts \<and> (now - ts > 60 * 60 * 24 \<or> now - ts < 0))
        \<longrightarrow> (\<exists>target msg. confirm_email t now st
                   = Inr (Redirect target, st\<lparr>session := flash msg (session st)\<rparr>)
               \<and> (current_user st \<noteq> None
                    \<longrightarrow> target = ''auth.profile'' \<and> msg \<in> {MsgLinkExpired, MsgLinkInvalid})))
   \<and> (\<exists>resp st'. password_reset t m f now st = Inr (resp, st')
        \<and> (db st' \<noteq> db st \<or> resp = Render ''password_reset.html''
             \<longrightarrow> (\<exists>e ts. t = Token e ts \<and> 0 \<le> now - ts \<and> now - ts \<le> 60 * 30)))
   \<and> (t = BadToken \<or> (\<exists>e ts. t = Token e ts \<and> (now - ts > 60 * 30 \<or> now - ts < 0))
        \<longrightarrow> (\<exists>msg. password_reset t m f now st
                   = Inr (Redirect ''auth.password_forgot'',
                          st\<lparr>session := flash msg (session st)\<rparr>)
               \<and> msg \<in> {MsgLinkExpired, MsgLinkInvalid}))
   \<and> (t = Token e ts \<and> 0 \<le> now - ts \<and> now - ts \<le> 60 * 30
        \<and> user_by_email (db st) (py_lower e) = Some usr
        \<and> form_get f ''password2'' = form_get f ''password''
        \<and> password_is_strong (form_get f ''password'')
        \<longrightarrow> password_reset t POST f now st
              = Inr (Redirect ''auth.login'',
                     \<lparr>db = update_user (u_id usr)
                             (\<lambda>x. x\<lparr>u_password_hash := HashOf (form_get f ''password'')\<rparr>) (db st),
                      session = flash MsgPasswordChanged (session st)\<rparr>))"
proof (intro conjI)
  show "\<exists>resp st'. confirm_email t now st = Inr (resp, st')
      \<and> (db st' \<noteq> db st \<longrightarrow>
            (\<exists>u e ts. current_user st = Some u \<and> t = Token e ts
               \<and> 0 \<le> now - ts \<and> now - ts \<le> 60 * 60 * 24
               \<and> py_lower e = py_lower (u_email u)))"
  proof (cases "current_user st")
    case None
    then show ?thesis by (simp add: confirm_email_cases)
  next
    case (Some u)
    show ?thesis
    proof (cases "ts_loads now 86400 t")
      case (Inl err)
      then show ?thesis using Some by (simp add: confirm_email_cases)
    next
      case (Inr e)
      then obtain ts where "t = Token e ts" "0 \<le> now - ts" "now - ts \<le> 86400"
        using ts_loads_Inr by blast
      then show ?thesis using Some Inr by (simp add: confirm_email_cases)
    qed
  qed
next
  show "current_user st = Some u \<and> t = Token e ts
        \<and> 0 \<le> now - ts \<and> now - ts \<le> 60 * 60 * 24
        \<and> py_lower e = py_lower (u_email u)
        \<longrightarrow> (\<exists>st'. confirm_email t now st = Inr (Redirect ''auth.profile'', st')
               \<and> get_user (db st') (u_id u) = Some (u\<lparr>u_email_confirmed := True\<rparr>))"
  proof (intro impI, elim conjE)
    assume u: "current_user st = Some u" and t: "t = Token e ts"
      and age: "0 \<le> now - ts" "now - ts \<le> 60 * 60 * 24"
      and e: "py_lower e = py_lower (u_email u)"
    have l: "ts_loads now 86400 t = Inr e"
      using t age by (simp add: ts_loads_def)
    have "get_user (update_user (u_id u) (\<lambda>x. x\<lparr>u_email_confirmed := True\<rparr>) (db st)) (u_id u)
            = Some (u\<lparr>u_email_confirmed := True\<rparr>)"
      by (simp add: get_user_update_user current_user_id[OF u])
    then show "\<exists>st'. confirm_email t now st = Inr (Redirect ''auth.profile'', st')
               \<and> get_user (db st') (u_id u) = Some (u\<lparr>u_email_confirmed := True\<rparr>)"
      using u l e by (simp add: confirm_email_cases)
  qed
next
  show "t = BadToken \<or> (\<exists>e ts. t = Token e ts \<and> (now - ts > 60 * 60 * 24 \<or> now - ts < 0))
        \<longrightarrow> (\<exists>target msg. confirm_email t now st
                   = Inr (Redirect target, st\<lparr>session := flash msg (session st)\<rparr>)
               \<and> (current_user st \<noteq> None
                    \<longrightarrow> target = ''auth.profile'' \<and> msg \<in> {MsgLinkExpired, MsgLinkInvalid}))"
  proof
    assume "t = BadToken \<or> (\<exists>e ts. t = Token e ts \<and> (now - ts > 60 * 60 * 24 \<or> now - ts < 0))"
    then obtain err where l: "ts_loads now 86400 t = Inl err"
      using ts_loads_Inl[of now 86400 t] by auto
    have "confirm_email t now st
            = Inr (Redirect (if current_user st = None then ''auth.login'' else ''auth.profile''),
                   st\<lparr>session := flash
                     (if current_user st = None then MsgPleaseLogIn
                      else if err = SignatureExpired then MsgLinkExpired else MsgLinkInvalid)
                     (session st)\<rparr>)"
      using l by (cases "current_user st") (simp_all add: confirm_email_cases)
    then show "\<exists>target msg. confirm_email t now st
                   = Inr (Redirect target, st\<lparr>session := flash msg (session st)\<rparr>)
               \<and> (current_user st \<noteq> None
                    \<longrightarrow> target = ''auth.profile'' \<and> msg \<in> {MsgLinkExpired, MsgLinkInvalid})"
      by (intro exI[of _ "if current_user st = None then ''auth.login'' else ''auth.profile''"]
          exI[of _ "if current_user st = None then MsgPleaseLogIn
                      else if err = SignatureExpired then MsgLinkExpired else MsgLinkInvalid"])
         simp
  qed
next
  show "\<exists>resp st'. password_reset t m f now st = Inr (resp, st')
        \<and> (db st' \<noteq> db st \<or> resp = Render ''password_reset.html''
             \<longrightarrow> (\<exists>e ts. t = Token e ts \<and> 0 \<le> now - ts \<and> now - ts \<le> 60 * 30))"
  proof -
    obtain resp st' where r: "password_reset t m f now st = Inr (resp, st')"
      and a: "db st' \<noteq> db st \<or> resp = Render ''password_reset.html''
                \<longrightarrow> (\<exists>e. ts_loads now 1800 t = Inr e)"
      using password_reset_result[of t m f now st] by blast
    have "db st' \<noteq> db st \<or> resp = Render ''password_reset.html''
             \<longrightarrow> (\<exists>e ts. t = Token e ts \<and> 0 \<le> now - ts \<and> now - ts \<le> 1800)"
      using a ts_loads_Inr[of now 1800 t] by blast
    then have "db st' \<noteq> db st \<or> resp = Render ''password_reset.html''
             \<longrightarrow> (\<exists>e ts. t = Token e ts \<and> 0 \<le> now - ts \<and> now - ts \<le> 60 * 30)"
      by simp
    with r show ?thesis by blast
  qed
next
  show "t = BadToken \<or> (\<exists>e ts. t = Token e ts \<and> (now - ts > 60 * 30 \<or> now - ts < 0))
        \<longrightarrow> (\<exists>msg. password_reset t m f now st
                   = Inr (Redirect ''auth.password_forgot'',
                          st\<lparr>session := flash msg (session st)\<rparr>)
               \<and> msg \<in> {MsgLinkExpired, MsgLinkInvalid})"
  proof
    assume "t = BadToken \<or> (\<exists>e ts. t = Token e ts \<and> (now - ts > 60 * 30 \<or> now - ts < 0))"
    then obtain err where "ts_loads now 1800 t = Inl err"
      using ts_loads_Inl[of now 1800 t] by auto
    then have "password_reset t m f now st =
       Inr (Redirect ''auth.password_forgot'',
            st\<lparr>session := flash (if err = SignatureExpired then MsgLinkExpired
                                   else MsgLinkInvalid) (session st)\<rparr>)"
      by (rule password_reset_rejects)
    then show "\<exists>msg. password_reset t m f now st
                   = Inr (Redirect ''auth.password_forgot'',
                          st\<lparr>session := flash msg (session st)\<rparr>)
               \<and> msg \<in> {MsgLinkExpired, MsgLinkInvalid}"
      by (intro exI[of _ "if err = SignatureExpired then MsgLinkExpired else MsgLinkInvalid"])
         simp
  qed
next
  show "t = Token e ts \<and> 0 \<le> now - ts \<and> now - ts \<le> 60 * 30
        \<and> user_by_email (db st) (py_lower e) = Some usr
        \<and> form_get f ''password2'' = form_get f ''password''
        \<and> password_is_strong (form_get f ''password'')
        \<longrightarrow> password_reset t POST f now st
              = Inr (Redirect ''auth.login'',
                     \<lparr>db = update_user (u_id usr)
                             (\<lambda>x. x\<lparr>u_password_hash := HashOf (form_get f ''password'')\<rparr>) (db st),
                      session = flash MsgPasswordChanged (session st)\<rparr>)"
  proof (intro impI, elim conjE)
    assume t: "t = Token e ts" and age: "0 \<le> now - ts" "now - ts \<le> 60 * 30"
      and usr: "user_by_email (db st) (py_lower e) = Some usr"
      and same: "form_get f ''password2'' = form_get f ''password''"
      and strong: "password_is_strong (form_get f ''password'')"
    have l: "ts_loads now (60 * 30) t = Inr e"
      using t age by (simp add: ts_loads_def)
    show "password_reset t POST f now st
              = Inr (Redirect ''auth.login'',
                     \<lparr>db = update_user (u_id usr)
                             (\<lambda>x. x\<lparr>u_password_hash := HashOf (form_get f ''password'')\<rparr>) (db st),
                      session = flash MsgPasswordChanged (session st)\<rparr>)"
      unfolding password_reset_def l
      by (simp add: usr same strong Let_def)
  qed
qed


lemma py_lower_ann: "py_lower ''ann@shop.test'' = ''ann@shop.test''"
  by (simp add: py_lower_def py_lower_char_def)

lemma user_by_email_ann: "user_by_email (db guest_state) ''ann@shop.test'' = Some demo_customer"
  by (simp add: user_by_email_def guest_state_def demo_db_def demo_admin_def demo_customer_def)

lemma strong_reset: "password_is_strong ''N3w-Secret''"
  by code_simp

lemma reset_form_fields:
  "form_get reset_form ''password'' = ''N3w-Secret''"
  "form_get reset_form ''password2'' = ''N3w-Secret''"
  by (simp_all add: reset_form_def form_get_def)

theorem token_links_time_limited_witness:
  "current_user customer_state = Some demo_customer
   \<and> demo_token = Token ''ann@shop.test'' 1000
   \<and> py_lower ''ann@shop.test'' = py_lower (u_email demo_customer)
   \<and> (\<exists>st'. confirm_email demo_token 4600 customer_state = Inr (Redirect ''auth.profile'', st')
          \<and> get_user (db st') 2 = Some (demo_customer\<lparr>u_email_confirmed := True\<rparr>))
   \<and> (\<exists>target msg. confirm_email demo_token 90000 customer_state
          = Inr (Redirect target, customer_state\<lparr>session := flash msg (session customer_state)\<rparr>)
          \<and> msg \<in> {MsgLinkExpired, MsgLinkInvalid})
   \<and> (\<exists>msg. password_reset BadToken POST reset_form 2000 guest_state
          = Inr (Redirect ''auth.password_forgot'',
                 guest_state\<lparr>session := flash msg (session guest_state)\<rparr>))
   \<and> (\<exists>msg. password_reset demo_token POST reset_form 4600 guest_state
          = Inr (Redirect ''auth.password_forgot'',
                 guest_state\<lparr>session := flash msg (session guest_state)\<rparr>))
   \<and> user_by_email (db guest_state) (py_lower ''ann@shop.test'') = Some demo_customer
   \<and> password_reset demo_token POST reset_form 2000 guest_state
        = Inr (Redirect ''auth.login'',
               \<lparr>db = update_user 2 (\<lambda>x. x\<lparr>u_password_hash := HashOf ''N3w-Secret''\<rparr>)
                       (db guest_state),
                session = flash MsgPasswordChanged (session guest_state)\<rparr>)"
proof -
  have tok: "demo_token = Token ''ann@shop.test'' 1000"
    by (simp add: demo_token_def)
  have em: "py_lower ''ann@shop.test'' = py_lower (u_email demo_customer)"
    by (simp add: demo_customer_def)
  have id2: "u_id demo_customer = 2"
    by (simp add: demo_customer_def)
  have w1: "\<exists>st'. confirm_email demo_token 4600 customer_state = Inr (Redirect ''auth.profile'', st')
          \<and> get_user (db st') 2 = Some (demo_customer\<lparr>u_email_confirmed := True\<rparr>)"
    using token_links_time_limited[where t = demo_token and now = 4600 and st = customer_state
        and u = demo_customer and e = "''ann@shop.test''" and ts = 1000]
      current_user_customer tok em
    by (simp add: id2)
  have cu: "current_user customer_state \<noteq> None"
    by (simp add: current_user_customer)
  have "demo_token = BadToken \<or>
        (\<exists>e ts. demo_token = Token e ts \<and> (90000 - ts > 60 * 60 * 24 \<or> 90000 - ts < (0::int)))"
    by (simp add: tok)
  with token_links_time_limited[where t = demo_token and now = 90000 and st = customer_state] cu
  have w2: "\<exists>target msg. confirm_email demo_token 90000 customer_state
          = Inr (Redirect target, customer_state\<lparr>session := flash msg (session customer_state)\<rparr>)
          \<and> msg \<in> {MsgLinkExpired, MsgLinkInvalid}"
    by blast
  from token_links_time_limited[where t = BadToken and now = 2000 and st = guest_state
      and m = POST and f = reset_form]
  have w3: "\<exists>msg. password_reset BadToken POST reset_form 2000 guest_state
          = Inr (Redirect ''auth.password_forgot'',
                 guest_state\<lparr>session := flash msg (session guest_state)\<rparr>)"
    by blast
  have "demo_token = BadToken \<or>
        (\<exists>e ts. demo_token = Token e ts \<and> (4600 - ts > 60 * 30 \<or> 4600 - ts < (0::int)))"
    by (simp add: tok)
  with token_links_time_limited[where t = demo_token and now = 4600 and st = guest_state
      and m = POST and f = reset_form]
  have w4: "\<exists>msg. password_reset demo_token POST reset_form 4600 guest_state
          = Inr (Redirect ''auth.password_forgot'',
                 guest_state\<lparr>session := flash msg (session guest_state)\<rparr>)"
    by blast
  have ue: "user_by_email (db guest_state) (py_lower ''ann@shop.test'') = Some demo_customer"
    by (simp add: py_lower_ann user_by_email_ann)
  have w5: "password_reset demo_token POST reset_form 2000 guest_state
        = Inr (Redirect ''auth.login'',
               \<lparr>db = update_user 2 (\<lambda>x. x\<lparr>u_password_hash := HashOf ''N3w-Secret''\<rparr>)
                       (db guest_state),
                session = flash MsgPasswordChanged (session guest_state)\<rparr>)"
    using token_links_time_limited[where t = demo_token and now = 2000 and st = guest_state
        and f = reset_form and e = "''ann@shop.test''" and ts = 1000 and usr = demo_customer]
      tok ue strong_reset
    by (simp add: reset_form_fields id2)
  show ?thesis
    apply (intro conjI)
    apply (rule current_user_customer)
    apply (rule tok)
    apply (rule em)
    apply (rule w1)
    apply (rule w2)
    apply (rule w3)
    apply (rule w4)
    apply (rule ue)
    apply (rule w5)
    done
qed

subsection \<open>\<open>checkout\<close>\<close>

lemma next_id_fresh: "next_id ids \<notin> set ids"
proof (cases "ids = []")
  case True
  then show ?thesis by simp
next
  case False
  have "Max (set ids) + 1 \<notin> set ids"
  proof
    assume "Max (set ids) + 1 \<in> set ids"
    then have "Max (set ids) + 1 \<le> Max (set ids)" by (rule Max_ge[OF finite_set])
    then show False by simp
  qed
  then show ?thesis using False by (simp add: next_id_def)
qed

lemma update_row_append_fresh:
  "\<forall>x\<in>set xs. \<not> P x \<Longrightarrow> P y \<Longrightarrow> update_row P f (xs @ [y]) = xs @ [f y]"
  by (induction xs) auto

lemma update_order_new:
  assumes "orders d = os @ [ord]" and "o_id ord = next_id (map o_id os)"
  shows "orders (update_order (o_id ord) f d) = os @ [f ord]"
proof -
  have "\<forall>x\<in>set os. \<not> o_id x = o_id ord"
  proof
    fix x assume "x \<in> set os"
    then have "o_id x \<in> set (map o_id os)" by simp
    then show "\<not> o_id x = o_id ord"
      using next_id_fresh[of "map o_id os"] assms(2) by metis
  qed
  then show ?thesis
    using assms(1) by (simp add: update_order_def update_row_append_fresh)
qed



lemma sql_max_numbers:
  "sql_max xs = (if {n. Some n \<in> set xs} = {} then None else Some (Max {n. Some n \<in> set xs}))"
proof (induction xs rule: sql_max.induct)
  case 1
  then show ?case by simp
next
  case (2 xs)
  then show ?case by simp
next
  case (3 v xs)
  let ?N = "{n. Some n \<in> set xs}"
  have fin: "finite ?N"
    using finite_vimageI[of "set xs" Some] by (simp add: vimage_def)
  have ins: "{n. Some n \<in> set (Some v # xs)} = insert v ?N" by auto
  show ?case
  proof (cases "?N = {}")
    case True
    then show ?thesis using 3 ins by simp
  next
    case False
    then have "sql_max xs = Some (Max ?N)" using 3 by simp
    moreover have "Max (insert v ?N) = max v (Max ?N)"
      using fin False by (rule Max_insert)
    ultimately show ?thesis unfolding ins by simp
  qed
qed

lemma last_no_numbers:
  "last_no uid email os =
     (let N = {n. \<exists>x\<in>set (customer_orders uid email os). o_user_order_no x = Some n}
      in if N = {} then 0 else Max N)"
proof -
  have "{n. Some n \<in> set (map o_user_order_no (customer_orders uid email os))}
        = {n. \<exists>x\<in>set (customer_orders uid email os). o_user_order_no x = Some n}"
    by (auto simp: image_iff) metis
  then show ?thesis
    by (simp add: last_no_def sql_max_numbers or_zero_def Let_def)
qed


text \<open>The order \<open>checkout\<close> builds, and the database after the first commit.\<close>

lemma checkout_post_unfold:
  fixes cfg stripe f st items
  defines "name \<equiv> py_strip (form_get f ''name'')"
      and "email \<equiv> py_lower (py_strip (form_get f ''email''))"
      and "address \<equiv> (if py_strip (form_get f ''address'') \<noteq> []
                        then py_strip (form_get f ''address'')
                        else (case current_user st of None \<Rightarrow> []
                              | Some usr \<Rightarrow> u_default_address usr))"
      and "uid \<equiv> map_option u_id (current_user st)"
      and "oid \<equiv> next_id (map o_id (orders (db st)))"
  defines "ord \<equiv> \<lparr>o_id = oid, o_user_id = uid, o_customer_name = name,
                     o_email = email, o_address = address, o_status = status_pending,
                     o_user_order_no = Some (last_no uid email (orders (db st)) + 1),
                     o_stripe_session_id = None\<rparr>"
  defines "d1 \<equiv> (db st)\<lparr>orders := orders (db st) @ [ord],
                          order_items := add_order_items oid items (order_items (db st))\<rparr>"
  assumes ci: "cart_items (products (db st)) (get_cart (session st)) = Inr (items, tot)"
      and tot: "0 < tot"
      and filled: "name \<noteq> []" "email \<noteq> []" "address \<noteq> []"
  shows "checkout_post cfg stripe f st =
     (if configured (STRIPE_SECRET_KEY cfg) \<and> configured (STRIPE_PUBLISHABLE_KEY cfg) then
        (case stripe of
           Some (sid, url) \<Rightarrow>
             Inr (RedirectCode url 303,
                  \<lparr>db = update_order oid (\<lambda>x. x\<lparr>o_stripe_session_id := Some sid\<rparr>) d1,
                   session = save_cart [] (session st)\<rparr>)
         | None \<Rightarrow>
             Inr (Render ''thankyou.html'',
                  \<lparr>db = update_order oid (\<lambda>x. x\<lparr>o_status := status_awaiting\<rparr>) d1,
                   session = save_cart [] (flash MsgStripeFailed (session st))\<rparr>))
      else
        Inr (Render ''thankyou.html'',
             \<lparr>db = update_order oid (\<lambda>x. x\<lparr>o_status := status_awaiting\<rparr>) d1,
              session = save_cart [] (session st)\<rparr>))"
proof -
  have nt: "\<not> tot \<le> 0" using tot by simp
  show ?thesis
    unfolding checkout_post_def ci sum.case prod.case Let_def
      name_def[symmetric] email_def[symmetric] address_def[symmetric]
    using filled nt
    by (simp add: uid_def oid_def ord_def d1_def name_def email_def address_def
        split: option.splits)
qed


lemma update_order_other_tables:
  "users (update_order i g d) = users d" "products (update_order i g d) = products d"
  "categories (update_order i g d) = categories d"
  "order_items (update_order i g d) = order_items d"
  by (simp_all add: update_order_def)

lemma checkout_post_order:
  fixes cfg stripe f st items
  defines "name \<equiv> py_strip (form_get f ''name'')"
      and "email \<equiv> py_lower (py_strip (form_get f ''email''))"
      and "address \<equiv> (if py_strip (form_get f ''address'') \<noteq> []
                        then py_strip (form_get f ''address'')
                        else (case current_user st of None \<Rightarrow> []
                              | Some usr \<Rightarrow> u_default_address usr))"
      and "uid \<equiv> map_option u_id (current_user st)"
  assumes ci: "cart_items (products (db st)) (get_cart (session st)) = Inr (items, tot)"
      and tot: "0 < tot"
      and filled: "name \<noteq> []" "email \<noteq> []" "address \<noteq> []"
  shows "\<exists>resp st' ord. checkout_post cfg stripe f st = Inr (resp, st')
     \<and> orders (db st') = orders (db st) @ [ord]
     \<and> o_id ord = next_id (map o_id (orders (db st)))
     \<and> o_user_id ord = uid \<and> o_customer_name ord = name \<and> o_email ord = email
     \<and> o_address ord = address
     \<and> o_user_order_no ord = Some (last_no uid email (orders (db st)) + 1)
     \<and> order_items (db st')
         = add_order_items (o_id ord) items (order_items (db st))
     \<and> users (db st') = users (db st) \<and> products (db st') = products (db st)
     \<and> categories (db st') = categories (db st)
     \<and> sess_cart (session st') = Some []
     \<and> (\<not> (configured (STRIPE_SECRET_KEY cfg) \<and> configured (STRIPE_PUBLISHABLE_KEY cfg))
          \<longrightarrow> resp = Render ''thankyou.html'' \<and> o_status ord = status_awaiting
              \<and> o_stripe_session_id ord = None \<and> session st' = save_cart [] (session st))"
proof -
  define oid where "oid = next_id (map o_id (orders (db st)))"
  define ord0 where "ord0 = \<lparr>o_id = oid, o_user_id = uid, o_customer_name = name,
                     o_email = email, o_address = address, o_status = status_pending,
                     o_user_order_no = Some (last_no uid email (orders (db st)) + 1),
                     o_stripe_session_id = None\<rparr>"
  define d1 where "d1 = (db st)\<lparr>orders := orders (db st) @ [ord0],
                          order_items := add_order_items oid items (order_items (db st))\<rparr>"
  have d1o: "orders d1 = orders (db st) @ [ord0]" by (simp add: d1_def)
  have id0: "o_id ord0 = next_id (map o_id (orders (db st)))" by (simp add: ord0_def oid_def)
  have upd: "\<And>g. orders (update_order oid g d1) = orders (db st) @ [g ord0]"
    using update_order_new[OF d1o id0] id0 by (simp add: oid_def)
  have tabs: "\<And>g. users (update_order oid g d1) = users (db st)"
    "\<And>g. products (update_order oid g d1) = products (db st)"
    "\<And>g. categories (update_order oid g d1) = categories (db st)"
    "\<And>g. order_items (update_order oid g d1)
            = add_order_items oid items (order_items (db st))"
    by (simp_all add: update_order_other_tables d1_def)
  have res: "checkout_post cfg stripe f st =
     (if configured (STRIPE_SECRET_KEY cfg) \<and> configured (STRIPE_PUBLISHABLE_KEY cfg) then
        (case stripe of
           Some (sid, url) \<Rightarrow>
             Inr (RedirectCode url 303,
                  \<lparr>db = update_order oid (\<lambda>x. x\<lparr>o_stripe_session_id := Some sid\<rparr>) d1,
                   session = save_cart [] (session st)\<rparr>)
         | None \<Rightarrow>
             Inr (Render ''thankyou.html'',
                  \<lparr>db = update_order oid (\<lambda>x. x\<lparr>o_status := status_awaiting\<rparr>) d1,
                   session = save_cart [] (flash MsgStripeFailed (session st))\<rparr>))
      else
        Inr (Render ''thankyou.html'',
             \<lparr>db = update_order oid (\<lambda>x. x\<lparr>o_status := status_awaiting\<rparr>) d1,
              session = save_cart [] (session st)\<rparr>))"
    using checkout_post_unfold[OF ci tot, of f cfg stripe] filled
    unfolding name_def email_def address_def uid_def oid_def ord0_def d1_def
    by simp
  show ?thesis
  proof (cases "configured (STRIPE_SECRET_KEY cfg) \<and> configured (STRIPE_PUBLISHABLE_KEY cfg)")
    case False
    show ?thesis
    proof -
      let ?g = "\<lambda>x. x\<lparr>o_status := status_awaiting\<rparr>"
      let ?st' = "\<lparr>db = update_order oid ?g d1, session = save_cart [] (session st)\<rparr>"
      have r: "checkout_post cfg stripe f st = Inr (Render ''thankyou.html'', ?st')"
        using res False by simp
      show ?thesis
      proof (intro exI conjI)
        show "checkout_post cfg stripe f st = Inr (Render ''thankyou.html'', ?st')" by (rule r)
        show "orders (db ?st') = orders (db st) @ [?g ord0]" by (simp add: upd)
        show "o_id (?g ord0) = next_id (map o_id (orders (db st)))" by (simp add: id0)
        show "o_user_id (?g ord0) = uid" by (simp add: ord0_def)
        show "o_customer_name (?g ord0) = name" by (simp add: ord0_def)
        show "o_email (?g ord0) = email" by (simp add: ord0_def)
        show "o_address (?g ord0) = address" by (simp add: ord0_def)
        show "o_user_order_no (?g ord0) = Some (last_no uid email (orders (db st)) + 1)"
          by (simp add: ord0_def)
        show "order_items (db ?st') = add_order_items (o_id (?g ord0)) items (order_items (db st))"
          by (simp add: tabs) (simp add: ord0_def)
        show "users (db ?st') = users (db st)" by (simp add: tabs)
        show "products (db ?st') = products (db st)" by (simp add: tabs)
        show "categories (db ?st') = categories (db st)" by (simp add: tabs)
        show "sess_cart (session ?st') = Some []" by (simp add: save_cart_def)
        show "\<not> (configured (STRIPE_SECRET_KEY cfg) \<and> configured (STRIPE_PUBLISHABLE_KEY cfg))
          \<longrightarrow> Render ''thankyou.html'' = Render ''thankyou.html'' \<and> o_status (?g ord0) = status_awaiting
              \<and> o_stripe_session_id (?g ord0) = None \<and> session ?st' = save_cart [] (session st)"
          by (simp add: ord0_def)
      qed
    qed
  next
    case True
    show ?thesis
    proof (cases stripe)
      case None
      show ?thesis
      proof -
      let ?g = "\<lambda>x. x\<lparr>o_status := status_awaiting\<rparr>"
      let ?st' = "\<lparr>db = update_order oid ?g d1, session = save_cart [] (flash MsgStripeFailed (session st))\<rparr>"
      have r: "checkout_post cfg stripe f st = Inr (Render ''thankyou.html'', ?st')"
        using res True None by simp
      show ?thesis
      proof (intro exI conjI)
        show "checkout_post cfg stripe f st = Inr (Render ''thankyou.html'', ?st')" by (rule r)
        show "orders (db ?st') = orders (db st) @ [?g ord0]" by (simp add: upd)
        show "o_id (?g ord0) = next_id (map o_id (orders (db st)))" by (simp add: id0)
        show "o_user_id (?g ord0) = uid" by (simp add: ord0_def)
        show "o_customer_name (?g ord0) = name" by (simp add: ord0_def)
        show "o_email (?g ord0) = email" by (simp add: ord0_def)
        show "o_address (?g ord0) = address" by (simp add: ord0_def)
        show "o_user_order_no (?g ord0) = Some (last_no uid email (orders (db st)) + 1)"
          by (simp add: ord0_def)
        show "order_items (db ?st') = add_order_items (o_id (?g ord0)) items (order_items (db st))"
          by (simp add: tabs) (simp add: ord0_def)
        show "users (db ?st') = users (db st)" by (simp add: tabs)
        show "products (db ?st') = products (db st)" by (simp add: tabs)
        show "categories (db ?st') = categories (db st)" by (simp add: tabs)
        show "sess_cart (session ?st') = Some []" by (simp add: save_cart_def)
        show "\<not> (configured (STRIPE_SECRET_KEY cfg) \<and> configured (STRIPE_PUBLISHABLE_KEY cfg))
          \<longrightarrow> Render ''thankyou.html'' = Render ''thankyou.html'' \<and> o_status (?g ord0) = status_awaiting
              \<and> o_stripe_session_id (?g ord0) = None \<and> session ?st' = save_cart [] (session st)"
          using True by simp
      qed
      qed
    next
      case (Some p)
      obtain sid url where p: "p = (sid, url)" by (cases p)
      show ?thesis
      proof -
      let ?g = "\<lambda>x. x\<lparr>o_stripe_session_id := Some sid\<rparr>"
      let ?st' = "\<lparr>db = update_order oid ?g d1, session = save_cart [] (session st)\<rparr>"
      have r: "checkout_post cfg stripe f st = Inr (RedirectCode url 303, ?st')"
        using res True Some p by simp
      show ?thesis
      proof (intro exI conjI)
        show "checkout_post cfg stripe f st = Inr (RedirectCode url 303, ?st')" by (rule r)
        show "orders (db ?st') = orders (db st) @ [?g ord0]" by (simp add: upd)
        show "o_id (?g ord0) = next_id (map o_id (orders (db st)))" by (simp add: id0)
        show "o_user_id (?g ord0) = uid" by (simp add: ord0_def)
        show "o_customer_name (?g ord0) = name" by (simp add: ord0_def)
        show "o_email (?g ord0) = email" by (simp add: ord0_def)
        show "o_address (?g ord0) = address" by (simp add: ord0_def)
        show "o_user_order_no (?g ord0) = Some (last_no uid email (orders (db st)) + 1)"
          by (simp add: ord0_def)
        show "order_items (db ?st') = add_order_items (o_id (?g ord0)) items (order_items (db st))"
          by (simp add: tabs) (simp add: ord0_def)
        show "users (db ?st') = users (db st)" by (simp add: tabs)
        show "products (db ?st') = products (db st)" by (simp add: tabs)
        show "categories (db ?st') = categories (db st)" by (simp add: tabs)
        show "sess_cart (session ?st') = Some []" by (simp add: save_cart_def)
        show "\<not> (configured (STRIPE_SECRET_KEY cfg) \<and> configured (STRIPE_PUBLISHABLE_KEY cfg))
          \<longrightarrow> RedirectCode url 303 = Render ''thankyou.html'' \<and> o_status (?g ord0) = status_awaiting
              \<and> o_stripe_session_id (?g ord0) = None \<and> session ?st' = save_cart [] (session st)"
          using True by simp
      qed
      qed
    qed
  qed
qed



lemma customer_orders_snoc:
  assumes "o_user_id ord = uid" and "o_email ord = email"
  shows "customer_orders uid email (os @ [ord]) = customer_orders uid email os @ [ord]"
  using assms by (cases uid) (auto simp: customer_orders_def)

lemma customer_orders_set:
  "set (customer_orders uid email os) =
     {x \<in> set os. (case uid of Some i \<Rightarrow> o_user_id x = Some i
                     | None \<Rightarrow> o_user_id x = None \<and> o_email x = email)}"
  by (cases uid) (auto simp: customer_orders_def)

lemma last_no_snoc:
  assumes "o_user_order_no ord = Some (last_no uid email os + 1)"
      and "customer_orders uid email (os @ [ord]) = customer_orders uid email os @ [ord]"
  shows "last_no uid email (os @ [ord]) = last_no uid email os + 1"
proof -
  define N where "N = {n. \<exists>x\<in>set (customer_orders uid email os). o_user_order_no x = Some n}"
  define L where "L = last_no uid email os"
  have fin: "finite N"
  proof -
    have "N \<subseteq> (\<lambda>x. the (o_user_order_no x)) ` set (customer_orders uid email os)"
      unfolding N_def by force
    then show ?thesis by (rule finite_subset) simp
  qed
  have N': "{n. \<exists>x\<in>set (customer_orders uid email (os @ [ord])). o_user_order_no x = Some n}
            = insert (L + 1) N"
    unfolding N_def L_def assms(2) using assms(1) by auto
  have L: "L = (if N = {} then 0 else Max N)"
    unfolding L_def N_def by (simp add: last_no_numbers Let_def)
  have m: "Max (insert (L + 1) N) = L + 1"
  proof (cases "N = {}")
    case True
    then show ?thesis by simp
  next
    case False
    then have "Max (insert (L + 1) N) = max (L + 1) (Max N)"
      using fin by simp
    moreover have "Max N = L" using L False by simp
    ultimately show ?thesis by simp
  qed
  have "last_no uid email (os @ [ord]) = Max (insert (L + 1) N)"
    unfolding last_no_numbers[of uid email "os @ [ord]"] Let_def N' by simp
  then show ?thesis using m by (simp add: L_def)
qed


text \<open>
  Claim C2. Every order that \<open>checkout\<close> creates (with or without Stripe) gets as
  \<open>user_order_no\<close> one plus the largest \<open>user_order_no\<close> among the customer's
  earlier orders, and 1 when there is none; the customer's earlier orders are those with
  the same \<open>user_id\<close> for a logged-in customer, and those with no \<open>user_id\<close> and
  the same email for a guest. The new order is the customer's next one, so the number
  the following checkout starts from (\<open>last_no\<close>) has grown by exactly 1.
\<close>

theorem order_numbers_per_customer:
  fixes cfg stripe f st items tot
  defines "name \<equiv> py_strip (form_get f ''name'')"
      and "email \<equiv> py_lower (py_strip (form_get f ''email''))"
      and "address \<equiv> (if py_strip (form_get f ''address'') \<noteq> []
                        then py_strip (form_get f ''address'')
                        else (case current_user st of None \<Rightarrow> []
                              | Some usr \<Rightarrow> u_default_address usr))"
      and "uid \<equiv> map_option u_id (current_user st)"
  defines "prev \<equiv> customer_orders uid email (orders (db st))"
  defines "numbers \<equiv> {n. \<exists>x\<in>set prev. o_user_order_no x = Some n}"
  shows
  "(cart_items (products (db st)) (get_cart (session st)) = Inr (items, tot) \<and> 0 < tot
    \<and> name \<noteq> [] \<and> email \<noteq> [] \<and> address \<noteq> []
    \<longrightarrow> (\<exists>resp st' ord.
           checkout_post cfg stripe f st = Inr (resp, st')
         \<and> orders (db st') = orders (db st) @ [ord]
         \<and> o_user_id ord = uid \<and> o_email ord = email
         \<and> o_user_order_no ord = Some (if numbers = {} then 1 else Max numbers + 1)
         \<and> customer_orders uid email (orders (db st')) = prev @ [ord]
         \<and> last_no uid email (orders (db st')) = last_no uid email (orders (db st)) + 1))
   \<and> set prev = {x \<in> set (orders (db st)).
                    (case uid of Some i \<Rightarrow> o_user_id x = Some i
                     | None \<Rightarrow> o_user_id x = None \<and> o_email x = email)}"
proof (intro conjI impI)
  assume a: "cart_items (products (db st)) (get_cart (session st)) = Inr (items, tot) \<and> 0 < tot
    \<and> name \<noteq> [] \<and> email \<noteq> [] \<and> address \<noteq> []"
  then have ci: "cart_items (products (db st)) (get_cart (session st)) = Inr (items, tot)"
    and tot: "0 < tot" and filled: "name \<noteq> []" "email \<noteq> []" "address \<noteq> []"
    by simp_all
  from checkout_post_order[OF ci tot, of f cfg stripe] filled
  obtain resp st' ord where
    r: "checkout_post cfg stripe f st = Inr (resp, st')"
    and o: "orders (db st') = orders (db st) @ [ord]"
    and flds: "o_user_id ord = uid" "o_email ord = email"
    and no: "o_user_order_no ord = Some (last_no uid email (orders (db st)) + 1)"
    unfolding name_def email_def address_def uid_def by blast
  have L: "last_no uid email (orders (db st)) = (if numbers = {} then 0 else Max numbers)"
    unfolding numbers_def prev_def by (simp add: last_no_numbers Let_def)
  have no': "o_user_order_no ord = Some (if numbers = {} then 1 else Max numbers + 1)"
    using no L by simp
  have co: "customer_orders uid email (orders (db st')) = prev @ [ord]"
    unfolding o prev_def by (rule customer_orders_snoc[OF flds])
  have ln: "last_no uid email (orders (db st')) = last_no uid email (orders (db st)) + 1"
    unfolding o by (rule last_no_snoc[OF no]) (rule customer_orders_snoc[OF flds])
  show "\<exists>resp st' ord.
           checkout_post cfg stripe f st = Inr (resp, st')
         \<and> orders (db st') = orders (db st) @ [ord]
         \<and> o_user_id ord = uid \<and> o_email ord = email
         \<and> o_user_order_no ord = Some (if numbers = {} then 1 else Max numbers + 1)
         \<and> customer_orders uid email (orders (db st')) = prev @ [ord]
         \<and> last_no uid email (orders (db st')) = last_no uid email (orders (db st)) + 1"
    using r o flds no' co ln by blast
next
  show "set prev = {x \<in> set (orders (db st)).
                    (case uid of Some i \<Rightarrow> o_user_id x = Some i
                     | None \<Rightarrow> o_user_id x = None \<and> o_email x = email)}"
    unfolding prev_def by (rule customer_orders_set)
qed


lemma customer_form_fields:
  "py_strip (form_get customer_checkout_form ''name'') = ''Ann''"
  "py_lower (py_strip (form_get customer_checkout_form ''email'')) = ''ann@shop.test''"
  "py_strip (form_get customer_checkout_form ''address'') = []"
proof -
  have "py_strip ''ann@shop.test'' = ''ann@shop.test''"
    by (simp add: py_strip_def py_isspace_def)
  then show "py_lower (py_strip (form_get customer_checkout_form ''email'')) = ''ann@shop.test''"
    by (simp add: customer_checkout_form_def form_get_def py_lower_ann)
qed (simp_all add: customer_checkout_form_def form_get_def py_strip_def py_isspace_def)

lemma customer_cart_items:
  "cart_items (products (db customer_state)) (get_cart (session customer_state))
     = Inr ([\<lparr>row_product = demo_product, row_qty = 2, row_line_total = 701\<rparr>], 701)"
proof -
  have "products (db customer_state) = products (db guest_state)"
    "get_cart (session customer_state) = [(''1'', 2)]"
    by (simp_all add: customer_state_def guest_state_def get_cart_def)
  then show ?thesis by (simp add: cart_items_demo_1)
qed



lemma customer_prev_orders:
  "customer_orders (Some 2) ''ann@shop.test'' (orders (db customer_state)) = [demo_order]"
  by (simp add: customer_orders_def customer_state_def demo_db_def demo_order_def)

theorem order_numbers_per_customer_witness:
  "cart_items (products (db customer_state)) (get_cart (session customer_state))
       = Inr ([\<lparr>row_product = demo_product, row_qty = 2, row_line_total = 701\<rparr>], 701)
   \<and> (0::real) < 701
   \<and> py_strip (form_get customer_checkout_form ''name'') = ''Ann''
   \<and> py_lower (py_strip (form_get customer_checkout_form ''email'')) = ''ann@shop.test''
   \<and> current_user customer_state = Some demo_customer
   \<and> u_default_address demo_customer = ''1 Main St''
   \<and> customer_orders (Some 2) ''ann@shop.test'' (orders (db customer_state)) = [demo_order]
   \<and> o_user_order_no demo_order = Some 1
   \<and> (\<exists>resp st' ord.
          checkout_post no_stripe None customer_checkout_form customer_state = Inr (resp, st')
        \<and> orders (db st') = orders (db customer_state) @ [ord]
        \<and> o_user_id ord = Some 2
        \<and> o_user_order_no ord = Some 2)"
proof -
  have da: "u_default_address demo_customer = ''1 Main St''" "u_id demo_customer = 2"
    by (simp_all add: demo_customer_def)
  have n1: "o_user_order_no demo_order = Some 1"
    by (simp add: demo_order_def)
  have uid: "map_option u_id (current_user customer_state) = Some 2"
    by (simp add: current_user_customer da)
  have addr: "(if py_strip (form_get customer_checkout_form ''address'') \<noteq> []
               then py_strip (form_get customer_checkout_form ''address'')
               else (case current_user customer_state of None \<Rightarrow> []
                     | Some usr \<Rightarrow> u_default_address usr)) \<noteq> []"
    by (simp add: customer_form_fields current_user_customer da)
  have nums: "{n. \<exists>x\<in>set (customer_orders (map_option u_id (current_user customer_state))
                 (py_lower (py_strip (form_get customer_checkout_form ''email'')))
                 (orders (db customer_state))). o_user_order_no x = Some n} = {1}"
    unfolding uid customer_form_fields customer_prev_orders using n1 by auto
  have pre: "cart_items (products (db customer_state)) (get_cart (session customer_state))
        = Inr ([\<lparr>row_product = demo_product, row_qty = 2, row_line_total = 701\<rparr>], 701)
      \<and> (0::real) < 701
      \<and> py_strip (form_get customer_checkout_form ''name'') \<noteq> []
      \<and> py_lower (py_strip (form_get customer_checkout_form ''email'')) \<noteq> []
      \<and> (if py_strip (form_get customer_checkout_form ''address'') \<noteq> []
               then py_strip (form_get customer_checkout_form ''address'')
               else (case current_user customer_state of None \<Rightarrow> []
                     | Some usr \<Rightarrow> u_default_address usr)) \<noteq> []"
    using customer_cart_items addr by (simp add: customer_form_fields)
  from order_numbers_per_customer[of customer_state
      "[\<lparr>row_product = demo_product, row_qty = 2, row_line_total = 701\<rparr>]" 701
      customer_checkout_form no_stripe None] pre
  obtain resp st' ord where
    r: "checkout_post no_stripe None customer_checkout_form customer_state = Inr (resp, st')"
    and o: "orders (db st') = orders (db customer_state) @ [ord]"
    and u: "o_user_id ord = map_option u_id (current_user customer_state)"
    and n: "o_user_order_no ord = Some (if {n. \<exists>x\<in>set (customer_orders
                 (map_option u_id (current_user customer_state))
                 (py_lower (py_strip (form_get customer_checkout_form ''email'')))
                 (orders (db customer_state))). o_user_order_no x = Some n} = {} then 1
              else Max {n. \<exists>x\<in>set (customer_orders
                 (map_option u_id (current_user customer_state))
                 (py_lower (py_strip (form_get customer_checkout_form ''email'')))
                 (orders (db customer_state))). o_user_order_no x = Some n} + 1)"
    by blast
  have "o_user_order_no ord = Some 2"
    using n unfolding nums by simp
  moreover have "o_user_id ord = Some 2"
    using u uid by simp
  ultimately have w: "\<exists>resp st' ord.
          checkout_post no_stripe None customer_checkout_form customer_state = Inr (resp, st')
        \<and> orders (db st') = orders (db customer_state) @ [ord]
        \<and> o_user_id ord = Some 2
        \<and> o_user_order_no ord = Some 2"
    using r o by blast
  show ?thesis
    apply (intro conjI)
    apply (rule customer_cart_items)
    apply simp
    apply (rule customer_form_fields(1))
    apply (rule customer_form_fields(2))
    apply (rule current_user_customer)
    apply (rule da(1))
    apply (rule customer_prev_orders)
    apply (rule n1)
    apply (rule w)
    done
qed

end
